theory Spec2Isabelle
  imports Complex_Main
begin

section \<open>Mat calibration sub-stage of the tracker pose computation\<close>

text \<open>
  Shallow embedding of \<^verbatim>\<open>src/psmoveconfigtool/AppSubStage_CalibrateWithMat.cpp\<close>.
  The C++ \<^verbatim>\<open>float\<close> and \<^verbatim>\<open>double\<close> values are idealised as real numbers, so the casts
  between them disappear; clock readings are real numbers of milliseconds. The \<^verbatim>\<open>int\<close>
  counters are integers, and the C arrays are lists read and written at \<open>nat i\<close>. The calls
  that draw or poll the video (\<^verbatim>\<open>render\<close>, \<^verbatim>\<open>renderUI\<close> apart from its restart button,
  \<^verbatim>\<open>update_tracker_video\<close>) change nothing of the state below and are left out.
\<close>

subsection \<open>Geometry values of the client library\<close>

type_synonym PSMoveScreenLocation = "real \<times> real"
type_synonym PSMoveFloatVector2 = "real \<times> real"
type_synonym PSMovePosition = "real \<times> real \<times> real"
type_synonym PSMoveFloatVector3 = "real \<times> real \<times> real"
type_synonym PSMoveQuaternion = "real \<times> real \<times> real \<times> real"
type_synonym vec4 = "real \<times> real \<times> real \<times> real"
type_synonym mat4 = "vec4 \<times> vec4 \<times> vec4 \<times> vec4"
type_synonym mat3 = "PSMoveFloatVector3 \<times> PSMoveFloatVector3 \<times> PSMoveFloatVector3"

record PSMovePose =
  Position :: PSMovePosition
  Orientation :: PSMoveQuaternion

text \<open>
  Modelled from the spec: the operators of \<^verbatim>\<open>PSMoveFloatVector2\<close>, \<^verbatim>\<open>PSMoveFloatVector3\<close>
  and \<^verbatim>\<open>PSMoveQuaternion\<close> (\<^verbatim>\<open>operator+\<close>, \<^verbatim>\<open>unsafe_divide\<close>) and the identity
  constants are declared in the client geometry header, which is not part of the file
  embedded here. They are the component-wise sum, the component-wise division by a
  scalar without a zero check, the zero vector, and the quaternion \<open>(w, x, y, z) = (1, 0, 0, 0)\<close>.
  The conversions \<^verbatim>\<open>toPSMoveFloatVector2\<close>, \<^verbatim>\<open>toPSMoveFloatVector3\<close>,
  \<^verbatim>\<open>castToPSMovePosition\<close> and \<^verbatim>\<open>PSMoveScreenLocation::create\<close> keep the components and
  are the identity on the tuples used here.
\<close>

definition vec2_add :: "PSMoveFloatVector2 \<Rightarrow> PSMoveFloatVector2 \<Rightarrow> PSMoveFloatVector2" where
  "vec2_add a b = (fst a + fst b, snd a + snd b)"

definition vec2_unsafe_divide :: "PSMoveFloatVector2 \<Rightarrow> real \<Rightarrow> PSMoveFloatVector2" where
  "vec2_unsafe_divide a d = (fst a / d, snd a / d)"

fun vec3_add :: "PSMoveFloatVector3 \<Rightarrow> PSMoveFloatVector3 \<Rightarrow> PSMoveFloatVector3" where
  "vec3_add (a, b, c) (a', b', c') = (a + a', b + b', c + c')"

fun vec3_unsafe_divide :: "PSMoveFloatVector3 \<Rightarrow> real \<Rightarrow> PSMoveFloatVector3" where
  "vec3_unsafe_divide (a, b, c) d = (a / d, b / d, c / d)"

fun quat_add :: "PSMoveQuaternion \<Rightarrow> PSMoveQuaternion \<Rightarrow> PSMoveQuaternion" where
  "quat_add (w, x, y, z) (w', x', y', z') = (w + w', x + x', y + y', z + z')"

fun quat_unsafe_divide :: "PSMoveQuaternion \<Rightarrow> real \<Rightarrow> PSMoveQuaternion" where
  "quat_unsafe_divide (w, x, y, z) d = (w / d, x / d, y / d, z / d)"

definition k_psmove_float_vector3_zero :: PSMoveFloatVector3 where
  "k_psmove_float_vector3_zero = (0, 0, 0)"

definition k_psmove_quaternion_identity :: PSMoveQuaternion where
  "k_psmove_quaternion_identity = (1, 0, 0, 0)"

definition k_psmove_pose_identity :: PSMovePose where
  "k_psmove_pose_identity =
     \<lparr>Position = (0, 0, 0), Orientation = k_psmove_quaternion_identity\<rparr>"

subsection \<open>GLM matrices\<close>

text \<open>
  A \<^verbatim>\<open>glm::mat4\<close> is four column vectors. \<^verbatim>\<open>operator*\<close> on a matrix and a vector is the
  linear combination of the columns by the vector's components, and on two matrices it
  transforms each column of the right factor by the left factor.
\<close>

fun vec4_add :: "vec4 \<Rightarrow> vec4 \<Rightarrow> vec4" where
  "vec4_add (a, b, c, d) (a', b', c', d') = (a + a', b + b', c + c', d + d')"

fun vec4_scale :: "vec4 \<Rightarrow> real \<Rightarrow> vec4" where
  "vec4_scale (a, b, c, d) s = (a * s, b * s, c * s, d * s)"

fun mat4_mul_vec4 :: "mat4 \<Rightarrow> vec4 \<Rightarrow> vec4" where
  "mat4_mul_vec4 (c0, c1, c2, c3) (x, y, z, w) =
     vec4_add (vec4_add (vec4_add (vec4_scale c0 x) (vec4_scale c1 y)) (vec4_scale c2 z))
       (vec4_scale c3 w)"

fun mat4_mul :: "mat4 \<Rightarrow> mat4 \<Rightarrow> mat4" where
  "mat4_mul A (b0, b1, b2, b3) =
     (mat4_mul_vec4 A b0, mat4_mul_vec4 A b1, mat4_mul_vec4 A b2, mat4_mul_vec4 A b3)"

definition mat4_identity :: mat4 where
  "mat4_identity = ((1, 0, 0, 0), (0, 1, 0, 0), (0, 0, 1, 0), (0, 0, 0, 1))"

subsection \<open>External collaborators\<close>

text \<open>
  The functions of OpenCV, GLM and \<^verbatim>\<open>MathGLM\<close> that the file calls and does not define are
  parameters of the model. \<open>cv_solvePnP\<close> returns the rotation vector and the translation
  when the solve succeeds and \<open>None\<close> when \<^verbatim>\<open>cv::solvePnP\<close> returns false.
  \<open>psmove_pose_to_glm_mat4\<close> is the overload on a pose and \<open>psmove_quat_pos_to_glm_mat4\<close>
  the overload on an orientation and a position.
\<close>

record externals =
  normalize_with_default :: "PSMoveQuaternion \<Rightarrow> PSMoveQuaternion \<Rightarrow> PSMoveQuaternion"
  psmove_pose_to_glm_mat4 :: "PSMovePose \<Rightarrow> mat4"
  psmove_quat_pos_to_glm_mat4 :: "PSMoveQuaternion \<Rightarrow> PSMovePosition \<Rightarrow> mat4"
  glm_inverse :: "mat4 \<Rightarrow> mat4"
  glm_mat4_to_psmove_pose :: "mat4 \<Rightarrow> PSMovePose"
  cv_solvePnP :: "(real \<times> real \<times> real) list \<Rightarrow> (real \<times> real) list \<Rightarrow> mat3 \<Rightarrow> real list
                    \<Rightarrow> ((real \<times> real \<times> real) \<times> (real \<times> real \<times> real)) option"
  cv_projectPoints :: "(real \<times> real \<times> real) list \<Rightarrow> (real \<times> real \<times> real) \<Rightarrow> (real \<times> real \<times> real)
                    \<Rightarrow> mat3 \<Rightarrow> real list \<Rightarrow> (real \<times> real) list"
  cv_Rodrigues :: "(real \<times> real \<times> real) \<Rightarrow> mat3"

subsection \<open>Views supplied by the parent stage on each tick\<close>

record ClientPSMoveView =
  GetIsStableAndAlignedWithGravity :: bool
  GetIsCurrentlyTracking :: bool
  GetPixelLocationOnTrackerId :: "int \<Rightarrow> PSMoveScreenLocation option"

record ClientHMDView =
  getIsHMDStableAndAlignedWithGravity :: bool
  getIsHMDTracking :: bool
  getHmdPose :: PSMovePose
  getTrackerPose :: PSMovePose

record ClientTrackerView =
  getTrackerId :: int
  getTrackerPixelExtents :: PSMoveFloatVector2
  getTrackerIntrinsicMatrix :: mat3

record TrackerState =
  listIndex :: nat
  trackerView :: ClientTrackerView

text \<open>
  \<open>m_trackerViews\<close> lists the entries of the tracker map in iteration order, and
  \<open>m_hmdView\<close> is \<open>None\<close> for a null pointer.
\<close>

record AppStage_ComputeTrackerPoses =
  m_controllerView :: ClientPSMoveView
  m_trackerViews :: "TrackerState list"
  m_hmdView :: "ClientHMDView option"

subsection \<open>State of the sub-stage\<close>

datatype eMenuState =
    initial
  | calibrationStepPlacePSMove
  | calibrationStepRecordPSMove
  | calibrationStepPlaceHMD
  | calibrationStepRecordHMD
  | calibrationStepComputeTrackerPoses
  | calibrateStepSuccess
  | calibrateStepFailed

record PS3EYETrackerPoseContext =
  screenSpacePoints :: "PSMoveScreenLocation list"
  screenSpacePointCount :: int
  avgScreenSpacePointAtLocation :: "PSMoveScreenLocation list"
  bValidTrackerPose :: bool
  reprojectionError :: real
  trackerPose :: PSMovePose
  hmdCameraRelativeTrackerPose :: PSMovePose

record HMDTrackerPoseContext =
  worldSpacePoints :: "PSMovePosition list"
  worldSpaceOrientations :: "PSMoveQuaternion list"
  worldSpaceSampleCount :: int
  avgHMDWorldSpacePoint :: PSMovePosition
  avgHMDWorldSpaceOrientation :: PSMoveQuaternion

record AppSubStage_CalibrateWithMat =
  m_menuState :: eMenuState
  m_stableStartTime :: real
  m_bIsStable :: bool
  m_psmoveTrackerPoseContexts :: "nat \<Rightarrow> PS3EYETrackerPoseContext"
  m_hmdTrackerPoseContext :: HMDTrackerPoseContext
  m_sampleLocationIndex :: int

datatype error = NullHMDView

text \<open>One call of \<^verbatim>\<open>request_set_tracker_pose\<close>: tracker pose, pose relative to the HMD camera, tracker.\<close>

type_synonym pose_request = "PSMovePose \<times> PSMovePose \<times> ClientTrackerView"

subsection \<open>Constants\<close>

definition k_stabilize_wait_time_ms :: real where
  "k_stabilize_wait_time_ms = 1000"

text \<open>
  \<^verbatim>\<open>k_mat_sample_location_count\<close> is declared in the header; the two tables it sizes,
  \<^verbatim>\<open>k_sample_3d_locations\<close> and \<^verbatim>\<open>k_sample_location_names\<close>, list five entries each.
  \<^verbatim>\<open>k_mat_calibration_sample_count\<close> is declared in the header too and nothing in the file
  fixes its value: it is the parameter \<open>N\<close> of every function below that reads it.
\<close>

definition k_mat_sample_location_count :: int where
  "k_mat_sample_location_count = 5"

definition k_height_to_psmove_bulb_center :: real where
  "k_height_to_psmove_bulb_center = 177 / 10"

definition k_sample_x_location_offset :: real where
  "k_sample_x_location_offset = 14"

definition k_sample_z_location_offset :: real where
  "k_sample_z_location_offset = 1075 / 100"

definition k_sample_3d_locations :: "PSMovePosition list" where
  "k_sample_3d_locations =
    [(k_sample_x_location_offset, k_height_to_psmove_bulb_center, k_sample_z_location_offset),
     (- k_sample_x_location_offset, k_height_to_psmove_bulb_center, k_sample_z_location_offset),
     (0, k_height_to_psmove_bulb_center, 0),
     (- k_sample_x_location_offset, k_height_to_psmove_bulb_center, - k_sample_z_location_offset),
     (k_sample_x_location_offset, k_height_to_psmove_bulb_center, - k_sample_z_location_offset)]"

subsection \<open>Entering and leaving a step\<close>

definition onExitState :: "eMenuState \<Rightarrow> AppSubStage_CalibrateWithMat \<Rightarrow> AppSubStage_CalibrateWithMat" where
  "onExitState oldState s = s"

text \<open>The loop of \<^verbatim>\<open>onEnterState\<close> over the tracker map: the sample count of each listed tracker is zeroed.\<close>

fun resetSampleCounts ::
  "TrackerState list \<Rightarrow> (nat \<Rightarrow> PS3EYETrackerPoseContext) \<Rightarrow> (nat \<Rightarrow> PS3EYETrackerPoseContext)" where
  "resetSampleCounts [] ctxs = ctxs"
| "resetSampleCounts (t # ts) ctxs =
     resetSampleCounts ts
       (ctxs(listIndex t := (ctxs (listIndex t))\<lparr>screenSpacePointCount := 0\<rparr>))"

text \<open>
  Modelled from the spec: \<^verbatim>\<open>HMDTrackerPoseContext::clear\<close> is defined in the header, which
  is not part of the file embedded here. Entering the controller placement step "clears
  stability and head buffers": the head sample count becomes zero and the buffers and
  averages are zeroed, the arrays keeping their sizes.
\<close>

definition hmd_clear :: "HMDTrackerPoseContext \<Rightarrow> HMDTrackerPoseContext" where
  "hmd_clear c =
     \<lparr>worldSpacePoints = map (\<lambda>_. (0, 0, 0)) (worldSpacePoints c),
      worldSpaceOrientations = map (\<lambda>_. (0, 0, 0, 0)) (worldSpaceOrientations c),
      worldSpaceSampleCount = 0,
      avgHMDWorldSpacePoint = (0, 0, 0),
      avgHMDWorldSpaceOrientation = (0, 0, 0, 0)\<rparr>"

fun onEnterState ::
  "AppStage_ComputeTrackerPoses \<Rightarrow> eMenuState \<Rightarrow> AppSubStage_CalibrateWithMat
     \<Rightarrow> AppSubStage_CalibrateWithMat" where
  "onEnterState P calibrationStepPlacePSMove s =
     s\<lparr>m_psmoveTrackerPoseContexts :=
          resetSampleCounts (m_trackerViews P) (m_psmoveTrackerPoseContexts s),
       m_sampleLocationIndex := 0,
       m_bIsStable := False,
       m_hmdTrackerPoseContext := hmd_clear (m_hmdTrackerPoseContext s)\<rparr>"
| "onEnterState P calibrationStepPlaceHMD s =
     s\<lparr>m_bIsStable := False,
       m_hmdTrackerPoseContext := (m_hmdTrackerPoseContext s)\<lparr>worldSpaceSampleCount := 0\<rparr>\<rparr>"
| "onEnterState P newState s = s"

definition setState ::
  "AppStage_ComputeTrackerPoses \<Rightarrow> eMenuState \<Rightarrow> AppSubStage_CalibrateWithMat
     \<Rightarrow> AppSubStage_CalibrateWithMat" where
  "setState P newState s =
     (if newState \<noteq> m_menuState s
      then (onEnterState P newState (onExitState (m_menuState s) s))\<lparr>m_menuState := newState\<rparr>
      else s)"

definition enter :: "AppStage_ComputeTrackerPoses \<Rightarrow> AppSubStage_CalibrateWithMat \<Rightarrow> AppSubStage_CalibrateWithMat" where
  "enter P s = setState P calibrationStepPlacePSMove s"

text \<open>\<^verbatim>\<open>exit\<close>, and the "Restart Calibration" button of \<^verbatim>\<open>renderUI\<close>, which makes the same call.\<close>

definition exit :: "AppStage_ComputeTrackerPoses \<Rightarrow> AppSubStage_CalibrateWithMat \<Rightarrow> AppSubStage_CalibrateWithMat" where
  "exit P s = setState P initial s"

subsection \<open>Recording controller samples\<close>

text \<open>
  The averaging loop of the controller recording step. The loop variable \<open>sampleIndex\<close>
  runs over \<open>0..<N\<close>; the body reads the buffer at \<open>sampleCount\<close>, as the source does.
\<close>

definition averageScreenSamples :: "int \<Rightarrow> PSMoveScreenLocation list \<Rightarrow> int \<Rightarrow> PSMoveFloatVector2" where
  "averageScreenSamples N points sampleCount =
     vec2_unsafe_divide
       (fold (\<lambda>sampleIndex avg. vec2_add avg (points ! nat sampleCount)) [0..<nat N] (0, 0))
       (real_of_int N)"

text \<open>The body of the per-tracker loop, on the context of the tracker.\<close>

definition recordScreenSample ::
  "int \<Rightarrow> ClientPSMoveView \<Rightarrow> int \<Rightarrow> ClientTrackerView \<Rightarrow> PS3EYETrackerPoseContext
     \<Rightarrow> PS3EYETrackerPoseContext" where
  "recordScreenSample N PSMoveView sampleLocationIndex tv c =
     (if GetIsCurrentlyTracking PSMoveView
         \<and> GetPixelLocationOnTrackerId PSMoveView (getTrackerId tv) \<noteq> None
         \<and> screenSpacePointCount c < N
      then
        let screenSample = the (GetPixelLocationOnTrackerId PSMoveView (getTrackerId tv));
            sampleCount = screenSpacePointCount c;
            c1 = c\<lparr>screenSpacePoints := (screenSpacePoints c)[nat sampleCount := screenSample],
                   screenSpacePointCount := sampleCount + 1\<rparr>
        in if screenSpacePointCount c1 \<ge> N
           then c1\<lparr>avgScreenSpacePointAtLocation :=
                     (avgScreenSpacePointAtLocation c1)
                       [nat sampleLocationIndex :=
                          averageScreenSamples N (screenSpacePoints c1) sampleCount]\<rparr>
           else c1
      else c)"

fun recordScreenSamples ::
  "int \<Rightarrow> ClientPSMoveView \<Rightarrow> int \<Rightarrow> TrackerState list \<Rightarrow> (nat \<Rightarrow> PS3EYETrackerPoseContext)
     \<Rightarrow> (nat \<Rightarrow> PS3EYETrackerPoseContext)" where
  "recordScreenSamples N PSMoveView loc [] ctxs = ctxs"
| "recordScreenSamples N PSMoveView loc (t # ts) ctxs =
     recordScreenSamples N PSMoveView loc ts
       (ctxs(listIndex t :=
          recordScreenSample N PSMoveView loc (trackerView t) (ctxs (listIndex t))))"

definition needMoreSamples ::
  "int \<Rightarrow> TrackerState list \<Rightarrow> (nat \<Rightarrow> PS3EYETrackerPoseContext) \<Rightarrow> bool" where
  "needMoreSamples N tvs ctxs =
     list_ex (\<lambda>t. screenSpacePointCount (ctxs (listIndex t)) < N) tvs"

subsection \<open>Recording head samples\<close>

definition averageHMDPositions :: "PSMovePosition list \<Rightarrow> int \<Rightarrow> PSMoveFloatVector3" where
  "averageHMDPositions points sampleCount =
     vec3_unsafe_divide
       (fold (\<lambda>sampleIndex avgPosition. vec3_add avgPosition (points ! nat sampleCount))
          [0..<nat k_mat_sample_location_count] k_psmove_float_vector3_zero)
       (real_of_int k_mat_sample_location_count)"

definition averageHMDOrientations :: "PSMoveQuaternion list \<Rightarrow> int \<Rightarrow> PSMoveQuaternion" where
  "averageHMDOrientations orientations sampleCount =
     quat_unsafe_divide
       (fold (\<lambda>sampleIndex avgOrientation. quat_add avgOrientation (orientations ! nat sampleCount))
          [0..<nat k_mat_sample_location_count] k_psmove_quaternion_identity)
       (real_of_int k_mat_sample_location_count)"

text \<open>The recording branch of the head step; the flag says whether the buffer just became full.\<close>

definition recordHMDSample ::
  "externals \<Rightarrow> ClientHMDView \<Rightarrow> HMDTrackerPoseContext \<Rightarrow> bool \<times> HMDTrackerPoseContext" where
  "recordHMDSample E HMDView h =
     (if getIsHMDTracking HMDView \<and> worldSpaceSampleCount h < k_mat_sample_location_count
      then
        let sampleCount = worldSpaceSampleCount h;
            pose = getHmdPose HMDView;
            h1 = h\<lparr>worldSpacePoints := (worldSpacePoints h)[nat sampleCount := Position pose],
                   worldSpaceOrientations :=
                     (worldSpaceOrientations h)[nat sampleCount := Orientation pose],
                   worldSpaceSampleCount := sampleCount + 1\<rparr>
        in if worldSpaceSampleCount h1 \<ge> k_mat_sample_location_count
           then (True,
                 h1\<lparr>avgHMDWorldSpacePoint := averageHMDPositions (worldSpacePoints h1) sampleCount,
                    avgHMDWorldSpaceOrientation :=
                      normalize_with_default E
                        (averageHMDOrientations (worldSpaceOrientations h1) sampleCount)
                        k_psmove_quaternion_identity\<rparr>)
           else (False, h1)
      else (False, h))"

subsection \<open>Composing the coordinate frames\<close>

definition computePSMoveTrackerToHMDTrackerSpaceTransform ::
  "externals \<Rightarrow> ClientHMDView \<Rightarrow> PSMovePose \<Rightarrow> HMDTrackerPoseContext \<Rightarrow> mat4" where
  "computePSMoveTrackerToHMDTrackerSpaceTransform E hmdView psmoveCalibrationOffset hmdTrackerPoseContext =
     (let hmdCameraToHmdTrackingSpace = psmove_pose_to_glm_mat4 E (getTrackerPose hmdView);
          hmdTrackingToHmdCameraSpace = glm_inverse E hmdCameraToHmdTrackingSpace;
          psmoveCalibrationToHmdTrackingSpace =
            psmove_quat_pos_to_glm_mat4 E
              (avgHMDWorldSpaceOrientation hmdTrackerPoseContext)
              (avgHMDWorldSpacePoint hmdTrackerPoseContext);
          psmoveCalibrationToPSMoveTrackingSpace = psmove_pose_to_glm_mat4 E psmoveCalibrationOffset;
          psmoveTrackingToPSMoveCalibrationSpace = glm_inverse E psmoveCalibrationToPSMoveTrackingSpace
      in mat4_mul
           (mat4_mul hmdTrackingToHmdCameraSpace psmoveCalibrationToHmdTrackingSpace)
           psmoveTrackingToPSMoveCalibrationSpace)"

subsection \<open>Solving one tracker's pose\<close>

text \<open>
  The point lists handed to the solver: the loop runs over \<open>0..<N\<close> and reads the averaged
  screen point and the mat location at the loop index, the pixel row flipped. Both tables
  have \<^verbatim>\<open>k_mat_sample_location_count\<close> entries, so for \<open>N > 5\<close> the source reads past their
  end; the values read there are unspecified in the model as they are in C++, and no result
  below depends on them: the solver that receives the lists is a parameter.
\<close>

definition cvObjectPoints :: "int \<Rightarrow> (real \<times> real \<times> real) list" where
  "cvObjectPoints N = map (\<lambda>locationIndex. k_sample_3d_locations ! locationIndex) [0..<nat N]"

definition cvImagePoints ::
  "int \<Rightarrow> PSMoveFloatVector2 \<Rightarrow> PS3EYETrackerPoseContext \<Rightarrow> (real \<times> real) list" where
  "cvImagePoints N trackerPixelDimensions c =
     map (\<lambda>locationIndex.
            let screenPoint = avgScreenSpacePointAtLocation c ! locationIndex
            in (fst screenPoint, snd trackerPixelDimensions - snd screenPoint))
       [0..<nat N]"

definition cvDistCoeffs :: "real list" where
  "cvDistCoeffs = [0, 0, 0, 0]"

text \<open>The re-projection error loop: each pass assigns the squared error of its point.\<close>

definition reprojectionErrorLoop :: "(real \<times> real) list \<Rightarrow> (real \<times> real) list \<Rightarrow> real" where
  "reprojectionErrorLoop imagePoints projectedPoints =
     fold (\<lambda>i err.
             let xError = fst (imagePoints ! i) - fst (projectedPoints ! i);
                 yError = snd (imagePoints ! i) - snd (projectedPoints ! i);
                 squaredError = xError * xError + yError * yError
             in squaredError)
       [0..<length projectedPoints] 0"

text \<open>
  The rotation matrix \<open>R\<close> is held by rows. \<open>RTMat\<close> lists the rows of \<open>R\<close> and then the
  translation of the inverse transform, \<open>- R\<^sup>T tvec\<close>; \<^verbatim>\<open>glm::make_mat4\<close> reads it column by
  column.
\<close>

fun trackerXformOf :: "mat3 \<Rightarrow> (real \<times> real \<times> real) \<Rightarrow> mat4" where
  "trackerXformOf ((r0, r1, r2), (r3, r4, r5), (r6, r7, r8)) (t0, t1, t2) =
     (let tv0 = - (r0 * t0 + r3 * t1 + r6 * t2);
          tv1 = - (r1 * t0 + r4 * t1 + r7 * t2);
          tv2 = - (r2 * t0 + r5 * t1 + r8 * t2)
      in ((r0, r1, r2, 0), (r3, r4, r5, 0), (r6, r7, r8, 0), (tv0, tv1, tv2, 1)))"

definition computeTrackerCameraPose ::
  "externals \<Rightarrow> int \<Rightarrow> ClientTrackerView \<Rightarrow> mat4 \<Rightarrow> PS3EYETrackerPoseContext
     \<Rightarrow> bool \<times> PS3EYETrackerPoseContext" where
  "computeTrackerCameraPose E N tv psmoveTrackerToHmdTrackerSpace trackerCoregData =
     (let trackerPixelDimensions = getTrackerPixelExtents tv;
          cvCameraMatrix = getTrackerIntrinsicMatrix tv;
          objectPoints = cvObjectPoints N;
          imagePoints = cvImagePoints N trackerPixelDimensions trackerCoregData
      in case cv_solvePnP E objectPoints imagePoints cvCameraMatrix cvDistCoeffs of
           None \<Rightarrow> (False, trackerCoregData\<lparr>bValidTrackerPose := False\<rparr>)
         | Some (rvec, tvec) \<Rightarrow>
             let projectedPoints =
                   cv_projectPoints E objectPoints rvec tvec cvCameraMatrix cvDistCoeffs;
                 trackerXform = trackerXformOf (cv_Rodrigues E rvec) tvec
             in (True,
                 trackerCoregData
                   \<lparr>bValidTrackerPose := True,
                    reprojectionError := reprojectionErrorLoop imagePoints projectedPoints,
                    trackerPose := glm_mat4_to_psmove_pose E trackerXform,
                    hmdCameraRelativeTrackerPose :=
                      glm_mat4_to_psmove_pose E
                        (mat4_mul psmoveTrackerToHmdTrackerSpace trackerXform)\<rparr>))"

subsection \<open>The pose computation step\<close>

definition psmoveTrackerToHmdTrackerSpaceOf ::
  "externals \<Rightarrow> ClientHMDView option \<Rightarrow> HMDTrackerPoseContext \<Rightarrow> mat4" where
  "psmoveTrackerToHmdTrackerSpaceOf E HMDView h =
     (case HMDView of
        None \<Rightarrow> mat4_identity
      | Some hmdView \<Rightarrow>
          computePSMoveTrackerToHMDTrackerSpaceTransform E hmdView k_psmove_pose_identity h)"

text \<open>The solve loop: it runs while \<open>bSuccess\<close> holds and trackers remain.\<close>

fun computeAllTrackerPoses ::
  "externals \<Rightarrow> int \<Rightarrow> mat4 \<Rightarrow> TrackerState list \<Rightarrow> bool \<Rightarrow> (nat \<Rightarrow> PS3EYETrackerPoseContext)
     \<Rightarrow> bool \<times> (nat \<Rightarrow> PS3EYETrackerPoseContext)" where
  "computeAllTrackerPoses E N T [] bSuccess ctxs = (bSuccess, ctxs)"
| "computeAllTrackerPoses E N T (t # ts) bSuccess ctxs =
     (if bSuccess
      then
        let r = computeTrackerCameraPose E N (trackerView t) T (ctxs (listIndex t))
        in computeAllTrackerPoses E N T ts (bSuccess \<and> fst r) (ctxs(listIndex t := snd r))
      else (bSuccess, ctxs))"

text \<open>The reporting loop: one \<^verbatim>\<open>request_set_tracker_pose\<close> call per tracker, in map order.\<close>

definition requestTrackerPoses ::
  "TrackerState list \<Rightarrow> (nat \<Rightarrow> PS3EYETrackerPoseContext) \<Rightarrow> pose_request list" where
  "requestTrackerPoses tvs ctxs =
     map (\<lambda>t. (trackerPose (ctxs (listIndex t)),
               hmdCameraRelativeTrackerPose (ctxs (listIndex t)),
               trackerView t)) tvs"

subsection \<open>One tick\<close>

text \<open>
  \<open>update E N now P s\<close> is one call of \<^verbatim>\<open>update\<close>: \<open>now\<close> is the reading of the clock, \<open>P\<close>
  the parent stage as this tick sees it. The result is the new state and the pose requests
  sent to the parent stage, or \<open>NullHMDView\<close> where the source dereferences a null
  \<^verbatim>\<open>HMDView\<close>.
\<close>

definition update ::
  "externals \<Rightarrow> int \<Rightarrow> real \<Rightarrow> AppStage_ComputeTrackerPoses \<Rightarrow> AppSubStage_CalibrateWithMat
     \<Rightarrow> error + (AppSubStage_CalibrateWithMat \<times> pose_request list)" where
  "update E N now P s =
     (case m_menuState s of
        initial \<Rightarrow> Inr (setState P calibrationStepPlacePSMove s, [])
      | calibrationStepPlacePSMove \<Rightarrow>
          (if GetIsStableAndAlignedWithGravity (m_controllerView P)
           then
             if m_bIsStable s
             then
               if now - m_stableStartTime s \<ge> k_stabilize_wait_time_ms
               then Inr (setState P calibrationStepRecordPSMove s, [])
               else Inr (s, [])
             else Inr (s\<lparr>m_bIsStable := True, m_stableStartTime := now\<rparr>, [])
           else
             if m_bIsStable s then Inr (s\<lparr>m_bIsStable := False\<rparr>, []) else Inr (s, []))
      | calibrationStepRecordPSMove \<Rightarrow>
          (let PSMoveView = m_controllerView P;
               bIsStable = GetIsStableAndAlignedWithGravity PSMoveView;
               bNeedMoreSamples =
                 needMoreSamples N (m_trackerViews P) (m_psmoveTrackerPoseContexts s)
           in if bNeedMoreSamples
              then
                if bIsStable
                then Inr (s\<lparr>m_psmoveTrackerPoseContexts :=
                              recordScreenSamples N PSMoveView (m_sampleLocationIndex s)
                                (m_trackerViews P) (m_psmoveTrackerPoseContexts s)\<rparr>, [])
                else Inr (setState P calibrationStepPlacePSMove s, [])
              else
                if \<not> bIsStable
                then
                  let s1 = s\<lparr>m_sampleLocationIndex := m_sampleLocationIndex s + 1\<rparr>
                  in if m_sampleLocationIndex s1 < k_mat_sample_location_count
                     then Inr (setState P calibrationStepPlacePSMove s1, [])
                     else
                       if m_hmdView P \<noteq> None
                       then Inr (setState P calibrationStepPlaceHMD s1, [])
                       else Inr (setState P calibrateStepSuccess s1, [])
                else Inr (s, []))
      | calibrationStepPlaceHMD \<Rightarrow>
          (case m_hmdView P of
             None \<Rightarrow> Inl NullHMDView
           | Some HMDView \<Rightarrow>
               if getIsHMDStableAndAlignedWithGravity HMDView
               then
                 if m_bIsStable s
                 then
                   if now - m_stableStartTime s \<ge> k_stabilize_wait_time_ms
                   then Inr (setState P calibrationStepRecordHMD s, [])
                   else Inr (s, [])
                 else Inr (s\<lparr>m_bIsStable := True, m_stableStartTime := now\<rparr>, [])
               else
                 if m_bIsStable s then Inr (s\<lparr>m_bIsStable := False\<rparr>, []) else Inr (s, []))
      | calibrationStepRecordHMD \<Rightarrow>
          (case m_hmdView P of
             None \<Rightarrow> Inl NullHMDView
           | Some HMDView \<Rightarrow>
               if getIsHMDStableAndAlignedWithGravity HMDView
               then
                 let r = recordHMDSample E HMDView (m_hmdTrackerPoseContext s);
                     s1 = s\<lparr>m_hmdTrackerPoseContext := snd r\<rparr>
                 in if fst r
                    then Inr (setState P calibrationStepComputeTrackerPoses s1, [])
                    else Inr (s1, [])
               else Inr (setState P calibrationStepPlaceHMD s, []))
      | calibrationStepComputeTrackerPoses \<Rightarrow>
          (let psmoveTrackerToHmdTrackerSpace =
                 psmoveTrackerToHmdTrackerSpaceOf E (m_hmdView P) (m_hmdTrackerPoseContext s);
               r = computeAllTrackerPoses E N psmoveTrackerToHmdTrackerSpace (m_trackerViews P)
                     True (m_psmoveTrackerPoseContexts s);
               bSuccess = fst r;
               s1 = s\<lparr>m_psmoveTrackerPoseContexts := snd r\<rparr>
           in if bSuccess
              then Inr (setState P calibrateStepSuccess s1,
                        requestTrackerPoses (m_trackerViews P) (m_psmoveTrackerPoseContexts s1))
              else Inr (setState P calibrateStepFailed s1, []))
      | calibrateStepSuccess \<Rightarrow> Inr (s, [])
      | calibrateStepFailed \<Rightarrow> Inr (s, []))"

section \<open>Reference notions and concrete sessions\<close>

subsection \<open>Arithmetic means, as the specification words them\<close>

definition arithmeticMean2 :: "(real \<times> real) list \<Rightarrow> real \<times> real" where
  "arithmeticMean2 ps =
     (sum_list (map fst ps) / real (length ps), sum_list (map snd ps) / real (length ps))"

definition arithmeticMean3 :: "(real \<times> real \<times> real) list \<Rightarrow> real \<times> real \<times> real" where
  "arithmeticMean3 ps =
     (sum_list (map fst ps) / real (length ps),
      sum_list (map (\<lambda>p. fst (snd p)) ps) / real (length ps),
      sum_list (map (\<lambda>p. snd (snd p)) ps) / real (length ps))"

definition componentSum4 :: "PSMoveQuaternion list \<Rightarrow> PSMoveQuaternion" where
  "componentSum4 qs = fold (\<lambda>q acc. quat_add acc q) qs (0, 0, 0, 0)"

subsection \<open>Outcome of one tracker's solve\<close>

text \<open>
  Whether the solve of tracker \<open>t\<close> succeeds on the contexts \<open>ctxs\<close>, and the context it
  leaves.
\<close>

definition solveOk ::
  "externals \<Rightarrow> int \<Rightarrow> mat4 \<Rightarrow> (nat \<Rightarrow> PS3EYETrackerPoseContext) \<Rightarrow> TrackerState \<Rightarrow> bool" where
  "solveOk E N T ctxs t =
     fst (computeTrackerCameraPose E N (trackerView t) T (ctxs (listIndex t)))"

definition solvedContext ::
  "externals \<Rightarrow> int \<Rightarrow> mat4 \<Rightarrow> (nat \<Rightarrow> PS3EYETrackerPoseContext) \<Rightarrow> TrackerState
     \<Rightarrow> PS3EYETrackerPoseContext" where
  "solvedContext E N T ctxs t =
     snd (computeTrackerCameraPose E N (trackerView t) T (ctxs (listIndex t)))"

subsection \<open>Runs of ticks\<close>

text \<open>The state after a list of ticks, each a clock reading and the parent stage it sees.\<close>

fun updates ::
  "externals \<Rightarrow> int \<Rightarrow> (real \<times> AppStage_ComputeTrackerPoses) list \<Rightarrow> AppSubStage_CalibrateWithMat
     \<Rightarrow> error + AppSubStage_CalibrateWithMat" where
  "updates E N [] s = Inr s"
| "updates E N ((now, P) # ticks) s =
     (case update E N now P s of
        Inl e \<Rightarrow> Inl e
      | Inr (s', rs) \<Rightarrow> updates E N ticks s')"

text \<open>
  The states a session reaches: \<^verbatim>\<open>enter\<close> on a freshly constructed object, whose only
  initialised field is the step, then ticks, \<^verbatim>\<open>exit\<close> or restart, and \<^verbatim>\<open>enter\<close> again, the
  tracker map staying the same.
\<close>

inductive reachable ::
  "externals \<Rightarrow> int \<Rightarrow> TrackerState list \<Rightarrow> AppSubStage_CalibrateWithMat \<Rightarrow> bool"
  for E :: externals and N :: int and tvs :: "TrackerState list" where
  start: "m_menuState s = initial \<Longrightarrow> m_trackerViews P = tvs \<Longrightarrow> reachable E N tvs (enter P s)"
| tick: "reachable E N tvs s \<Longrightarrow> m_trackerViews P = tvs \<Longrightarrow> update E N now P s = Inr (s', rs)
         \<Longrightarrow> reachable E N tvs s'"
| leave: "reachable E N tvs s \<Longrightarrow> m_trackerViews P = tvs \<Longrightarrow> reachable E N tvs (exit P s)"
| reenter: "reachable E N tvs s \<Longrightarrow> m_trackerViews P = tvs \<Longrightarrow> reachable E N tvs (enter P s)"

definition sessionInvariant :: "int \<Rightarrow> TrackerState list \<Rightarrow> AppSubStage_CalibrateWithMat \<Rightarrow> bool" where
  "sessionInvariant N tvs s \<longleftrightarrow>
     (m_menuState s = initial \<or> m_menuState s = calibrationStepPlacePSMove
        \<or> m_menuState s = calibrationStepRecordPSMove)
     \<and> m_sampleLocationIndex s = 0
     \<and> (\<forall>t\<in>set tvs. screenSpacePointCount (m_psmoveTrackerPoseContexts s (listIndex t)) \<le> N)"

subsection \<open>The dwell of the stability signal, as the specification words it\<close>

text \<open>
  The stability signal a placement step reads: the controller's in the controller placement
  step, the head device's in the head placement step (none when there is no head device).
\<close>

definition stabilitySignal :: "eMenuState \<Rightarrow> AppStage_ComputeTrackerPoses \<Rightarrow> bool option" where
  "stabilitySignal st P =
     (if st = calibrationStepPlaceHMD
      then map_option getIsHMDStableAndAlignedWithGravity (m_hmdView P)
      else Some (GetIsStableAndAlignedWithGravity (m_controllerView P)))"

definition recordingStepOf :: "eMenuState \<Rightarrow> eMenuState" where
  "recordingStepOf st =
     (if st = calibrationStepPlaceHMD then calibrationStepRecordHMD
      else calibrationStepRecordPSMove)"

definition observations ::
  "eMenuState \<Rightarrow> (real \<times> AppStage_ComputeTrackerPoses) list \<Rightarrow> (bool \<times> real) list" where
  "observations st ticks = map (\<lambda>(now, P). (the (stabilitySignal st P), now)) ticks"

text \<open>
  The observations since the signal last became true: the longest run of true observations
  that ends the sequence. The dwell is reached when that run is not empty and spans the
  wait time, from its first observation to the last one.
\<close>

definition stableStreak :: "(bool \<times> real) list \<Rightarrow> (bool \<times> real) list" where
  "stableStreak obs = rev (takeWhile fst (rev obs))"

definition dwellReached :: "(bool \<times> real) list \<Rightarrow> bool" where
  "dwellReached obs \<longleftrightarrow>
     stableStreak obs \<noteq> []
     \<and> k_stabilize_wait_time_ms \<le> snd (last obs) - snd (hd (stableStreak obs))"

subsection \<open>A one-tracker session\<close>

definition sampleTracker :: TrackerState where
  "sampleTracker =
     \<lparr>listIndex = 0,
      trackerView = \<lparr>getTrackerId = 7, getTrackerPixelExtents = (640, 480),
                     getTrackerIntrinsicMatrix = ((554, 0, 320), (0, 554, 240), (0, 0, 1))\<rparr>\<rparr>"

definition samplePose :: PSMovePose where
  "samplePose = \<lparr>Position = (0, 0, 0), Orientation = (1, 0, 0, 0)\<rparr>"

text \<open>A tracker context with \<open>n\<close> samples counted, buffers of \<open>N\<close> and five zero points.\<close>

definition sampleContext :: "int \<Rightarrow> int \<Rightarrow> PS3EYETrackerPoseContext" where
  "sampleContext N n =
     \<lparr>screenSpacePoints = replicate (nat N) (0, 0), screenSpacePointCount = n,
      avgScreenSpacePointAtLocation = replicate 5 (0, 0), bValidTrackerPose = False,
      reprojectionError = 0, trackerPose = samplePose, hmdCameraRelativeTrackerPose = samplePose\<rparr>"

definition sampleHMDContext :: "int \<Rightarrow> HMDTrackerPoseContext" where
  "sampleHMDContext n =
     \<lparr>worldSpacePoints = replicate 5 (0, 0, 0), worldSpaceOrientations = replicate 5 (0, 0, 0, 1),
      worldSpaceSampleCount = n, avgHMDWorldSpacePoint = (0, 0, 0),
      avgHMDWorldSpaceOrientation = (0, 0, 0, 0)\<rparr>"

text \<open>The state in step \<open>st\<close> at mat location \<open>loc\<close>, every tracker context holding \<open>n\<close> of \<open>N\<close> samples.\<close>

definition sampleState :: "eMenuState \<Rightarrow> int \<Rightarrow> int \<Rightarrow> int \<Rightarrow> AppSubStage_CalibrateWithMat" where
  "sampleState st loc N n =
     \<lparr>m_menuState = st, m_stableStartTime = 0, m_bIsStable = True,
      m_psmoveTrackerPoseContexts = (\<lambda>_. sampleContext N n),
      m_hmdTrackerPoseContext = sampleHMDContext 0, m_sampleLocationIndex = loc\<rparr>"

definition sampleHMDView :: "bool \<Rightarrow> PSMovePose \<Rightarrow> ClientHMDView" where
  "sampleHMDView isStable pose =
     \<lparr>getIsHMDStableAndAlignedWithGravity = isStable, getIsHMDTracking = True,
      getHmdPose = pose, getTrackerPose = samplePose\<rparr>"

text \<open>The parent stage with the one tracker; the controller is tracked and seen at \<open>pixel\<close>.\<close>

definition sampleParent ::
  "bool \<Rightarrow> PSMoveScreenLocation option \<Rightarrow> ClientHMDView option \<Rightarrow> AppStage_ComputeTrackerPoses" where
  "sampleParent isStable pixel hmd =
     \<lparr>m_controllerView =
        \<lparr>GetIsStableAndAlignedWithGravity = isStable, GetIsCurrentlyTracking = True,
         GetPixelLocationOnTrackerId = (\<lambda>_. pixel)\<rparr>,
      m_trackerViews = [sampleTracker], m_hmdView = hmd\<rparr>"

subsection \<open>Stand-ins for the external functions, and a second tracker\<close>

text \<open>
  Enough of the external functions to run a session: poses are translations, the solver
  succeeds when the focal length of the camera matrix is positive and returns no rotation
  and the translation \<open>(1, 2, 3)\<close>, and every point projects to the pixel \<open>(0, 0)\<close>.
\<close>

definition translationMatrix :: "PSMovePosition \<Rightarrow> mat4" where
  "translationMatrix p =
     (case p of (x, y, z) \<Rightarrow> ((1, 0, 0, 0), (0, 1, 0, 0), (0, 0, 1, 0), (x, y, z, 1)))"

definition sampleExternals :: externals where
  "sampleExternals =
     \<lparr>normalize_with_default = (\<lambda>q d. if q = (0, 0, 0, 0) then d else q),
      psmove_pose_to_glm_mat4 = (\<lambda>p. translationMatrix (Position p)),
      psmove_quat_pos_to_glm_mat4 = (\<lambda>q p. translationMatrix p),
      glm_inverse = (\<lambda>M. case M of (c0, c1, c2, (x, y, z, w)) \<Rightarrow> (c0, c1, c2, (- x, - y, - z, w))),
      glm_mat4_to_psmove_pose =
        (\<lambda>M. case M of (c0, c1, c2, (x, y, z, w)) \<Rightarrow>
           \<lparr>Position = (x, y, z), Orientation = k_psmove_quaternion_identity\<rparr>),
      cv_solvePnP =
        (\<lambda>objectPoints imagePoints cameraMatrix distCoeffs.
           if 0 < fst (fst cameraMatrix) then Some ((0, 0, 0), (1, 2, 3)) else None),
      cv_projectPoints =
        (\<lambda>objectPoints rvec tvec cameraMatrix distCoeffs. map (\<lambda>_. (0, 0)) objectPoints),
      cv_Rodrigues = (\<lambda>rvec. ((1, 0, 0), (0, 1, 0), (0, 0, 1)))\<rparr>"

text \<open>A tracker with a zero camera matrix, on which the stand-in solver fails.\<close>

definition blindTracker :: TrackerState where
  "blindTracker =
     \<lparr>listIndex = 1,
      trackerView = \<lparr>getTrackerId = 8, getTrackerPixelExtents = (640, 480),
                     getTrackerIntrinsicMatrix = ((0, 0, 0), (0, 0, 0), (0, 0, 0))\<rparr>\<rparr>"

definition twoTrackerParent :: AppStage_ComputeTrackerPoses where
  "twoTrackerParent =
     (sampleParent True None None)\<lparr>m_trackerViews := [blindTracker, sampleTracker]\<rparr>"

section \<open>Properties\<close>

subsection \<open>Averaging of the controller samples\<close>

text \<open>The averaging loop adds one buffer slot \<open>N\<close> times: its result is the sample in that slot.\<close>

lemma fold_vec2_add_const:
  "fold (\<lambda>sampleIndex avg. vec2_add avg v) xs a
     = (fst a + real (length xs) * fst v, snd a + real (length xs) * snd v)"
  by (induction xs arbitrary: a) (simp_all add: vec2_add_def algebra_simps)

lemma averageScreenSamples_reads_one_slot:
  "0 < N \<Longrightarrow> averageScreenSamples N points sampleCount = points ! nat sampleCount"
  by (simp add: averageScreenSamples_def fold_vec2_add_const vec2_unsafe_divide_def)

text \<open>
  C1. After the N-th 2D screen sample of a (tracker, location) pair is appended, the stored
  averaged point should be the component-wise arithmetic mean of the N samples. The
  averaging loop reads the buffer at \<open>sampleCount\<close>, the slot just written, on every pass:
  with ten samples per location, nine samples \<open>(0, 0)\<close> in the buffer and a tenth sample
  \<open>(10, 10)\<close>, the stored average is \<open>(10, 10)\<close> and the mean of the ten samples is \<open>(1, 1)\<close>.
\<close>

theorem C1_average_is_last_sample:
  "case update E 10 now (sampleParent True (Some (10, 10)) None)
          (sampleState calibrationStepRecordPSMove 0 10 9) of
     Inl e \<Rightarrow> False
   | Inr (s', rs) \<Rightarrow>
       screenSpacePointCount (m_psmoveTrackerPoseContexts s' 0) = 10
       \<and> screenSpacePoints (m_psmoveTrackerPoseContexts s' 0) = replicate 9 (0, 0) @ [(10, 10)]
       \<and> avgScreenSpacePointAtLocation (m_psmoveTrackerPoseContexts s' 0) ! 0 = (10, 10)
       \<and> arithmeticMean2 (screenSpacePoints (m_psmoveTrackerPoseContexts s' 0)) = (1, 1)"
  by (simp add: update_def sampleParent_def sampleState_def sampleContext_def sampleTracker_def
      needMoreSamples_def recordScreenSample_def averageScreenSamples_def vec2_add_def
      vec2_unsafe_divide_def arithmeticMean2_def Let_def eval_nat_numeral upt_rec)

subsection \<open>Leaving the controller recording step\<close>

text \<open>
  What the three ways out of the recording step do, for any state: entering the placement
  step zeroes the sample counts of the listed trackers and the location index and keeps the
  averaged points.
\<close>

lemma resetSampleCounts_apply:
  "resetSampleCounts tvs ctxs i =
     (if i \<in> listIndex ` set tvs then (ctxs i)\<lparr>screenSpacePointCount := 0\<rparr> else ctxs i)"
  by (induction tvs arbitrary: ctxs) auto

lemma enter_placement_from_recording:
  assumes "m_menuState s = calibrationStepRecordPSMove"
  shows "m_menuState (setState P calibrationStepPlacePSMove s) = calibrationStepPlacePSMove
       \<and> m_sampleLocationIndex (setState P calibrationStepPlacePSMove s) = 0
       \<and> (\<forall>t\<in>set (m_trackerViews P).
             screenSpacePointCount
               (m_psmoveTrackerPoseContexts (setState P calibrationStepPlacePSMove s) (listIndex t)) = 0)
       \<and> (\<forall>i. avgScreenSpacePointAtLocation
                  (m_psmoveTrackerPoseContexts (setState P calibrationStepPlacePSMove s) i)
                = avgScreenSpacePointAtLocation (m_psmoveTrackerPoseContexts s i))"
  using assms by (simp add: setState_def onExitState_def resetSampleCounts_apply)

lemma recording_unstable_short:
  assumes "m_menuState s = calibrationStepRecordPSMove"
    and "needMoreSamples N (m_trackerViews P) (m_psmoveTrackerPoseContexts s)"
    and "\<not> GetIsStableAndAlignedWithGravity (m_controllerView P)"
  shows "update E N now P s = Inr (setState P calibrationStepPlacePSMove s, [])"
  using assms by (simp add: update_def)

lemma recording_complete_picked_up:
  assumes "m_menuState s = calibrationStepRecordPSMove"
    and "\<not> needMoreSamples N (m_trackerViews P) (m_psmoveTrackerPoseContexts s)"
    and "\<not> GetIsStableAndAlignedWithGravity (m_controllerView P)"
    and "m_sampleLocationIndex s + 1 < k_mat_sample_location_count"
  shows "update E N now P s
           = Inr (setState P calibrationStepPlacePSMove
                    (s\<lparr>m_sampleLocationIndex := m_sampleLocationIndex s + 1\<rparr>), [])
       \<and> m_sampleLocationIndex
           (setState P calibrationStepPlacePSMove
              (s\<lparr>m_sampleLocationIndex := m_sampleLocationIndex s + 1\<rparr>)) = 0"
  using assms by (simp add: update_def Let_def setState_def onExitState_def)

lemma recording_complete_no_hmd:
  assumes "m_menuState s = calibrationStepRecordPSMove"
    and "\<not> needMoreSamples N (m_trackerViews P) (m_psmoveTrackerPoseContexts s)"
    and "\<not> GetIsStableAndAlignedWithGravity (m_controllerView P)"
    and "\<not> m_sampleLocationIndex s + 1 < k_mat_sample_location_count"
    and "m_hmdView P = None"
  shows "update E N now P s
           = Inr (s\<lparr>m_sampleLocationIndex := m_sampleLocationIndex s + 1,
                    m_menuState := calibrateStepSuccess\<rparr>, [])"
  using assms by (simp add: update_def Let_def setState_def onExitState_def)


text \<open>
  C2. When the controller becomes unstable while a tracker is short of samples, the session
  returns to the controller placement step and the sample counts are zeroed, and the
  progress through the earlier mat locations should stay. Entering the placement step also
  sets the mat location index to zero: from location index 2 with three of ten samples,
  the tick ends at location index 0.
\<close>

theorem C2_unstable_resets_location_index:
  "case update E 10 now (sampleParent False None None)
          (sampleState calibrationStepRecordPSMove 2 10 3) of
     Inl e \<Rightarrow> False
   | Inr (s', rs) \<Rightarrow>
       m_menuState s' = calibrationStepPlacePSMove
       \<and> screenSpacePointCount (m_psmoveTrackerPoseContexts s' 0) = 0
       \<and> m_sampleLocationIndex (sampleState calibrationStepRecordPSMove 2 10 3) = 2
       \<and> m_sampleLocationIndex s' = 0"
  by (simp add: update_def sampleParent_def sampleState_def sampleContext_def sampleTracker_def
      needMoreSamples_def setState_def onExitState_def Let_def)

text \<open>
  C3. When every tracker has filled the current location and the controller is picked up,
  the location index should advance by one and the session should go on to the next
  location. The index is incremented and then zeroed on entering the placement step: from
  location index 0 with ten of ten samples, the tick ends in the placement step at location
  index 0 again.
\<close>

theorem C3_location_index_does_not_advance:
  "case update E 10 now (sampleParent False None None)
          (sampleState calibrationStepRecordPSMove 0 10 10) of
     Inl e \<Rightarrow> False
   | Inr (s', rs) \<Rightarrow>
       m_menuState s' = calibrationStepPlacePSMove
       \<and> m_sampleLocationIndex (sampleState calibrationStepRecordPSMove 0 10 10) = 0
       \<and> m_sampleLocationIndex s' = 0"
  by (simp add: update_def sampleParent_def sampleState_def sampleContext_def sampleTracker_def
      needMoreSamples_def setState_def onExitState_def Let_def k_mat_sample_location_count_def)

text \<open>
  C4. With no head device, the session should go from the controller recording step to the
  pose computation and report one pose pair per tracker before it succeeds. From the last
  location (index 4) with ten of ten samples and no head device, the tick ends in the
  success step: no pose request is sent and no tracker context is touched.
\<close>

theorem C4_no_hmd_skips_pose_computation:
  "case update E 10 now (sampleParent False None None)
          (sampleState calibrationStepRecordPSMove 4 10 10) of
     Inl e \<Rightarrow> False
   | Inr (s', rs) \<Rightarrow>
       m_menuState s' = calibrateStepSuccess
       \<and> rs = []
       \<and> m_psmoveTrackerPoseContexts s'
           = m_psmoveTrackerPoseContexts (sampleState calibrationStepRecordPSMove 4 10 10)"
  by (simp add: update_def sampleParent_def sampleState_def sampleContext_def sampleTracker_def
      needMoreSamples_def setState_def onExitState_def Let_def k_mat_sample_location_count_def)

subsection \<open>Averaging of the head samples\<close>

lemma fold_vec3_add_const:
  "fold (\<lambda>sampleIndex avg. vec3_add avg (x, y, z)) xs (a, b, c)
     = (a + real (length xs) * x, b + real (length xs) * y, c + real (length xs) * z)"
  by (induction xs arbitrary: a b c) (simp_all add: algebra_simps)

lemma averageHMDPositions_reads_one_slot:
  "averageHMDPositions points sampleCount = points ! nat sampleCount"
proof -
  obtain x y z where p: "points ! nat sampleCount = (x, y, z)"
    by (cases "points ! nat sampleCount")
  show ?thesis
    by (simp add: averageHMDPositions_def p fold_vec3_add_const k_psmove_float_vector3_zero_def
        k_mat_sample_location_count_def)
qed

text \<open>
  C6. When the head buffer becomes full, the stored position should be the mean of the
  recorded positions and the stored orientation the normalised component-wise sum of the
  recorded orientations. Both loops read the buffers at \<open>sampleCount\<close>, the slot just written,
  and the orientation sum starts from the identity quaternion: with four samples at
  \<open>(0, 0, 0)\<close> with orientation \<open>(0, 0, 0, 1)\<close> and a fifth at \<open>(5, 5, 5)\<close> with orientation
  \<open>(1, 0, 0, 0)\<close>, the stored position is \<open>(5, 5, 5)\<close>, where the mean is \<open>(1, 1, 1)\<close>, and the
  quaternion handed to the normalisation is \<open>(6/5, 0, 0, 0)\<close>, where the sum of the five
  orientations is \<open>(1, 0, 0, 4)\<close>.
\<close>

theorem C6_head_average_is_last_sample:
  "case update E N now
          (sampleParent True None
             (Some (sampleHMDView True \<lparr>Position = (5, 5, 5), Orientation = (1, 0, 0, 0)\<rparr>)))
          ((sampleState calibrationStepRecordHMD 5 10 10)
             \<lparr>m_hmdTrackerPoseContext := sampleHMDContext 4\<rparr>) of
     Inl e \<Rightarrow> False
   | Inr (s', rs) \<Rightarrow>
       m_menuState s' = calibrationStepComputeTrackerPoses
       \<and> worldSpaceSampleCount (m_hmdTrackerPoseContext s') = 5
       \<and> worldSpacePoints (m_hmdTrackerPoseContext s') = replicate 4 (0, 0, 0) @ [(5, 5, 5)]
       \<and> worldSpaceOrientations (m_hmdTrackerPoseContext s')
           = replicate 4 (0, 0, 0, 1) @ [(1, 0, 0, 0)]
       \<and> avgHMDWorldSpacePoint (m_hmdTrackerPoseContext s') = (5, 5, 5)
       \<and> arithmeticMean3 (worldSpacePoints (m_hmdTrackerPoseContext s')) = (1, 1, 1)
       \<and> avgHMDWorldSpaceOrientation (m_hmdTrackerPoseContext s')
           = normalize_with_default E (6 / 5, 0, 0, 0) k_psmove_quaternion_identity
       \<and> componentSum4 (worldSpaceOrientations (m_hmdTrackerPoseContext s')) = (1, 0, 0, 4)"
  by (simp add: update_def sampleParent_def sampleState_def sampleHMDContext_def sampleHMDView_def
      recordHMDSample_def averageHMDPositions_def averageHMDOrientations_def
      k_psmove_float_vector3_zero_def k_psmove_quaternion_identity_def
      arithmeticMean3_def componentSum4_def
      setState_def onExitState_def Let_def k_mat_sample_location_count_def eval_nat_numeral upt_rec)

subsection \<open>The dwell of the placement steps\<close>

lemma stableStreak_snoc:
  "stableStreak (obs @ [(b, t)]) = (if b then stableStreak obs @ [(b, t)] else [])"
  by (simp add: stableStreak_def)

lemma dwellReached_snoc:
  "dwellReached (obs @ [(b, t)]) \<longleftrightarrow>
     b \<and> stableStreak obs \<noteq> [] \<and> k_stabilize_wait_time_ms \<le> t - snd (hd (stableStreak obs))"
  by (cases "stableStreak obs")
     (auto simp: dwellReached_def stableStreak_snoc k_stabilize_wait_time_ms_def)

lemma updates_snoc:
  "updates E N (ticks @ [(now, P)]) s =
     (case updates E N ticks s of
        Inl e \<Rightarrow> Inl e
      | Inr s1 \<Rightarrow> (case update E N now P s1 of Inl e \<Rightarrow> Inl e | Inr (s2, rs) \<Rightarrow> Inr s2))"
  by (induction ticks arbitrary: s) (auto split: sum.splits)

lemma observations_snoc:
  "stabilitySignal st P = Some b \<Longrightarrow>
   observations st (ticks @ [(now, P)]) = observations st ticks @ [(b, now)]"
  by (simp add: observations_def)

lemma place_tick:
  assumes st: "st = calibrationStepPlacePSMove \<or> st = calibrationStepPlaceHMD"
    and s: "m_menuState s = st"
    and sig: "stabilitySignal st P = Some b"
  shows "\<exists>s'. update E N now P s = Inr (s', [])
           \<and> (m_menuState s' = recordingStepOf st \<longleftrightarrow>
                b \<and> m_bIsStable s \<and> k_stabilize_wait_time_ms \<le> now - m_stableStartTime s)
           \<and> (m_menuState s' = st \<or> m_menuState s' = recordingStepOf st)
           \<and> (m_menuState s' = st \<longrightarrow>
                m_bIsStable s' = b
                \<and> m_stableStartTime s' = (if b \<and> \<not> m_bIsStable s then now else m_stableStartTime s))"
  using st
proof
  assume c: "st = calibrationStepPlacePSMove"
  then show ?thesis
    using s sig
    by (auto simp: update_def stabilitySignal_def recordingStepOf_def setState_def onExitState_def)
next
  assume h: "st = calibrationStepPlaceHMD"
  then obtain v where v: "m_hmdView P = Some v" "getIsHMDStableAndAlignedWithGravity v = b"
    using sig by (auto simp: stabilitySignal_def)
  show ?thesis
    using h s v
    by (auto simp: update_def recordingStepOf_def setState_def onExitState_def)
qed

lemma place_run:
  assumes st: "st = calibrationStepPlacePSMove \<or> st = calibrationStepPlaceHMD"
    and s: "m_menuState s = st" "\<not> m_bIsStable s"
  shows "(\<forall>tp\<in>set ticks. stabilitySignal st (snd tp) \<noteq> None) \<Longrightarrow>
         (\<forall>k<length ticks. \<not> dwellReached (observations st (take (Suc k) ticks))) \<Longrightarrow>
         \<exists>s1. updates E N ticks s = Inr s1 \<and> m_menuState s1 = st
            \<and> (m_bIsStable s1 \<longleftrightarrow> stableStreak (observations st ticks) \<noteq> [])
            \<and> (m_bIsStable s1 \<longrightarrow>
                 m_stableStartTime s1 = snd (hd (stableStreak (observations st ticks))))"
proof (induction ticks rule: rev_induct)
  case Nil
  then show ?case using s by (simp add: observations_def stableStreak_def)
next
  case (snoc x xs)
  obtain now P where x: "x = (now, P)" by (cases x)
  obtain b where b: "stabilitySignal st P = Some b" using snoc.prems(1) x by auto
  have sigs: "\<forall>tp\<in>set xs. stabilitySignal st (snd tp) \<noteq> None" using snoc.prems(1) by simp
  have pre: "\<forall>k<length xs. \<not> dwellReached (observations st (take (Suc k) xs))"
  proof (intro allI impI)
    fix k assume k: "k < length xs"
    then have "k < length (xs @ [x])" by simp
    then have "\<not> dwellReached (observations st (take (Suc k) (xs @ [x])))"
      using snoc.prems(2) by blast
    then show "\<not> dwellReached (observations st (take (Suc k) xs))" using k by simp
  qed
  from snoc.IH [OF sigs pre] obtain s1 where s1:
    "updates E N xs s = Inr s1" "m_menuState s1 = st"
    "m_bIsStable s1 \<longleftrightarrow> stableStreak (observations st xs) \<noteq> []"
    "m_bIsStable s1 \<longrightarrow> m_stableStartTime s1 = snd (hd (stableStreak (observations st xs)))"
    by blast
  from place_tick [OF st s1(2) b, of E N now] obtain s2 where s2:
    "update E N now P s1 = Inr (s2, [])"
    "m_menuState s2 = recordingStepOf st \<longleftrightarrow>
       b \<and> m_bIsStable s1 \<and> k_stabilize_wait_time_ms \<le> now - m_stableStartTime s1"
    "m_menuState s2 = st \<or> m_menuState s2 = recordingStepOf st"
    "m_menuState s2 = st \<longrightarrow>
       m_bIsStable s2 = b
       \<and> m_stableStartTime s2 = (if b \<and> \<not> m_bIsStable s1 then now else m_stableStartTime s1)"
    by blast
  have obs: "observations st (xs @ [x]) = observations st xs @ [(b, now)]"
    using observations_snoc [OF b] x by simp
  have "length xs < length (xs @ [x])" by simp
  then have "\<not> dwellReached (observations st (take (Suc (length xs)) (xs @ [x])))"
    using snoc.prems(2) by blast
  then have nd: "\<not> dwellReached (observations st xs @ [(b, now)])" using obs by simp
  then have "\<not> (b \<and> m_bIsStable s1 \<and> k_stabilize_wait_time_ms \<le> now - m_stableStartTime s1)"
    using s1(3,4) by (auto simp: dwellReached_snoc)
  then have stay: "m_menuState s2 = st" using s2(2,3) by blast
  have run: "updates E N (xs @ [x]) s = Inr s2"
    using s1(1) s2(1) x by (simp add: updates_snoc)
  have flag: "m_bIsStable s2 = b" using s2(4) stay by blast
  have start: "m_stableStartTime s2 = (if b \<and> \<not> m_bIsStable s1 then now else m_stableStartTime s1)"
    using s2(4) stay by blast
  have streak: "stableStreak (observations st (xs @ [x]))
                  = (if b then stableStreak (observations st xs) @ [(b, now)] else [])"
    using obs by (simp add: stableStreak_snoc)
  have c3: "m_bIsStable s2 \<longleftrightarrow> stableStreak (observations st (xs @ [x])) \<noteq> []"
    using flag streak by simp
  have c4: "m_bIsStable s2 \<longrightarrow>
              m_stableStartTime s2 = snd (hd (stableStreak (observations st (xs @ [x]))))"
  proof
    assume "m_bIsStable s2"
    then have bt: b using flag by simp
    show "m_stableStartTime s2 = snd (hd (stableStreak (observations st (xs @ [x]))))"
    proof (cases "m_bIsStable s1")
      case True
      then have "stableStreak (observations st xs) \<noteq> []" using s1(3) by simp
      then show ?thesis using True bt start streak s1(4) by simp
    next
      case False
      then have "stableStreak (observations st xs) = []" using s1(3) by simp
      then show ?thesis using False bt start streak by simp
    qed
  qed
  show ?case using run stay c3 c4 by blast
qed

text \<open>
  C5. In a placement step entered with the stability flag cleared, take any ticks during
  which the dwell was not yet reached. The session is then still in the placement step, and
  the next tick moves to the recording step exactly when the stability signal has been true
  on every tick since it last became true and the time from that tick to this one is at
  least 1000 ms; otherwise the session stays in the placement step. A tick with a false
  signal leaves the session in the placement step with the stability flag cleared, so that
  the next true signal starts the count again.
\<close>

theorem C5_dwell_threshold:
  assumes st: "st = calibrationStepPlacePSMove \<or> st = calibrationStepPlaceHMD"
    and s: "m_menuState s = st" "\<not> m_bIsStable s"
    and sigs: "\<forall>tp\<in>set (ticks @ [(now, P)]). stabilitySignal st (snd tp) \<noteq> None"
    and before: "\<forall>k<length ticks. \<not> dwellReached (observations st (take (Suc k) ticks))"
  shows "\<exists>s1 s2. updates E N ticks s = Inr s1 \<and> m_menuState s1 = st
           \<and> update E N now P s1 = Inr (s2, [])
           \<and> (m_menuState s2 = recordingStepOf st
                \<longleftrightarrow> dwellReached (observations st (ticks @ [(now, P)])))
           \<and> (m_menuState s2 \<noteq> recordingStepOf st \<longrightarrow> m_menuState s2 = st)
           \<and> (stabilitySignal st P = Some False \<longrightarrow> m_menuState s2 = st \<and> \<not> m_bIsStable s2)"
proof -
  have sigs': "\<forall>tp\<in>set ticks. stabilitySignal st (snd tp) \<noteq> None" using sigs by simp
  obtain b where b: "stabilitySignal st P = Some b" using sigs by auto
  from place_run [OF st s sigs' before, of E N] obtain s1 where s1:
    "updates E N ticks s = Inr s1" "m_menuState s1 = st"
    "m_bIsStable s1 \<longleftrightarrow> stableStreak (observations st ticks) \<noteq> []"
    "m_bIsStable s1 \<longrightarrow> m_stableStartTime s1 = snd (hd (stableStreak (observations st ticks)))"
    by blast
  from place_tick [OF st s1(2) b, of E N now] obtain s2 where s2:
    "update E N now P s1 = Inr (s2, [])"
    "m_menuState s2 = recordingStepOf st \<longleftrightarrow>
       b \<and> m_bIsStable s1 \<and> k_stabilize_wait_time_ms \<le> now - m_stableStartTime s1"
    "m_menuState s2 = st \<or> m_menuState s2 = recordingStepOf st"
    "m_menuState s2 = st \<longrightarrow>
       m_bIsStable s2 = b
       \<and> m_stableStartTime s2 = (if b \<and> \<not> m_bIsStable s1 then now else m_stableStartTime s1)"
    by blast
  have "dwellReached (observations st (ticks @ [(now, P)])) \<longleftrightarrow>
          b \<and> m_bIsStable s1 \<and> k_stabilize_wait_time_ms \<le> now - m_stableStartTime s1"
    using s1(3,4) by (auto simp: observations_snoc [OF b] dwellReached_snoc)
  then have iff: "m_menuState s2 = recordingStepOf st
                    \<longleftrightarrow> dwellReached (observations st (ticks @ [(now, P)]))"
    using s2(2) by simp
  have other: "m_menuState s2 \<noteq> recordingStepOf st \<longrightarrow> m_menuState s2 = st" using s2(3) by blast
  have reset: "stabilitySignal st P = Some False \<longrightarrow> m_menuState s2 = st \<and> \<not> m_bIsStable s2"
    using b s2(2,3,4) by auto
  show ?thesis using s1(1,2) s2(1) iff other reset by blast
qed

theorem C5_dwell_threshold_witness:
  "m_menuState (enter (sampleParent True None None) (sampleState initial 0 10 0))
     = calibrationStepPlacePSMove
   \<and> \<not> m_bIsStable (enter (sampleParent True None None) (sampleState initial 0 10 0))
   \<and> dwellReached (observations calibrationStepPlacePSMove
        [(0, sampleParent True None None), (400, sampleParent True None None),
         (1000, sampleParent True None None)])
   \<and> (\<exists>s1 s2.
        updates sampleExternals 10
          [(0, sampleParent True None None), (400, sampleParent True None None)]
          (enter (sampleParent True None None) (sampleState initial 0 10 0)) = Inr s1
        \<and> m_menuState s1 = calibrationStepPlacePSMove
        \<and> update sampleExternals 10 1000 (sampleParent True None None) s1 = Inr (s2, [])
        \<and> m_menuState s2 = calibrationStepRecordPSMove)"
proof -
  let ?P = "sampleParent True None None"
  let ?s = "enter ?P (sampleState initial 0 10 0)"
  have st: "calibrationStepPlacePSMove = calibrationStepPlacePSMove
            \<or> calibrationStepPlacePSMove = calibrationStepPlaceHMD" by simp
  have s1: "m_menuState ?s = calibrationStepPlacePSMove"
    by (simp add: enter_def setState_def sampleState_def)
  have s2: "\<not> m_bIsStable ?s"
    by (simp add: enter_def setState_def sampleState_def onExitState_def)
  have sigs: "\<forall>tp\<in>set ([(0, ?P), (400, ?P)] @ [(1000, ?P)]).
                stabilitySignal calibrationStepPlacePSMove (snd tp) \<noteq> None"
    by (simp add: stabilitySignal_def)
  have before: "\<forall>k<length [(0::real, ?P), (400, ?P)].
     \<not> dwellReached (observations calibrationStepPlacePSMove (take (Suc k) [(0, ?P), (400, ?P)]))"
    by (simp add: less_Suc_eq dwellReached_def stableStreak_def observations_def
        stabilitySignal_def sampleParent_def k_stabilize_wait_time_ms_def)
  have reached: "dwellReached (observations calibrationStepPlacePSMove
        [(0, ?P), (400, ?P), (1000, ?P)])"
    by (simp add: dwellReached_def stableStreak_def observations_def
        stabilitySignal_def sampleParent_def k_stabilize_wait_time_ms_def)
  show ?thesis
    using s1 s2 reached
      C5_dwell_threshold [OF st s1 s2 sigs before, of sampleExternals 10]
    by (simp add: recordingStepOf_def) blast
qed

subsection \<open>Caps on the sample counts and the location index\<close>


lemma recordScreenSample_full: "N \<le> screenSpacePointCount c \<Longrightarrow> recordScreenSample N v loc tv c = c"
  by (simp add: recordScreenSample_def)

lemma recordScreenSample_count_le:
  "screenSpacePointCount c \<le> N \<Longrightarrow> screenSpacePointCount (recordScreenSample N v loc tv c) \<le> N"
  by (simp add: recordScreenSample_def Let_def)

lemma recordScreenSamples_count_le:
  "\<forall>i\<in>I. screenSpacePointCount (ctxs i) \<le> N \<Longrightarrow>
   \<forall>i\<in>I. screenSpacePointCount (recordScreenSamples N v loc ts ctxs i) \<le> N"
proof (induction ts arbitrary: ctxs)
  case Nil
  then show ?case by simp
next
  case (Cons t ts)
  have "\<forall>i\<in>I. screenSpacePointCount
          ((ctxs(listIndex t := recordScreenSample N v loc (trackerView t) (ctxs (listIndex t)))) i) \<le> N"
    using Cons.prems by (simp add: recordScreenSample_count_le)
  from Cons.IH [OF this] show ?case by (simp only: recordScreenSamples.simps)
qed

lemma recordScreenSamples_full:
  "N \<le> screenSpacePointCount (ctxs i) \<Longrightarrow> recordScreenSamples N v loc ts ctxs i = ctxs i"
proof (induction ts arbitrary: ctxs)
  case Nil
  then show ?case by simp
next
  case (Cons t ts)
  let ?c = "ctxs(listIndex t := recordScreenSample N v loc (trackerView t) (ctxs (listIndex t)))"
  have same: "?c i = ctxs i"
    using Cons.prems by (cases "i = listIndex t") (simp_all add: recordScreenSample_full)
  then have "N \<le> screenSpacePointCount (?c i)" using Cons.prems by simp
  then have "recordScreenSamples N v loc ts ?c i = ?c i" by (rule Cons.IH [of ?c])
  then show ?case using same by (simp only: recordScreenSamples.simps)
qed

lemma recordHMDSample_full:
  "k_mat_sample_location_count \<le> worldSpaceSampleCount h \<Longrightarrow> recordHMDSample E hv h = (False, h)"
  by (simp add: recordHMDSample_def)

lemma enter_invariant:
  assumes "0 \<le> N" "m_trackerViews P = tvs"
    and "m_menuState s = initial \<or> sessionInvariant N tvs s"
  shows "sessionInvariant N tvs (enter P s)"
  using assms
  by (auto simp: enter_def setState_def onExitState_def sessionInvariant_def resetSampleCounts_apply)

lemma exit_invariant:
  "sessionInvariant N tvs s \<Longrightarrow> sessionInvariant N tvs (exit P s)"
  by (auto simp: exit_def setState_def onExitState_def sessionInvariant_def)

lemma update_invariant:
  assumes N: "0 \<le> N" and P: "m_trackerViews P = tvs"
    and inv: "sessionInvariant N tvs s"
    and upd: "update E N now P s = Inr (s', rs)"
  shows "sessionInvariant N tvs s'"
proof -
  have place: "sessionInvariant N tvs (setState P calibrationStepPlacePSMove x)"
    if "m_menuState x \<noteq> calibrationStepPlacePSMove" for x
    using that N P
    by (auto simp: setState_def onExitState_def sessionInvariant_def resetSampleCounts_apply)
  consider (i) "m_menuState s = initial" | (p) "m_menuState s = calibrationStepPlacePSMove"
    | (r) "m_menuState s = calibrationStepRecordPSMove"
    using inv by (auto simp: sessionInvariant_def)
  then show ?thesis
  proof cases
    case i
    then show ?thesis using upd place [of s] by (auto simp: update_def)
  next
    case p
    then show ?thesis
      using upd inv
      by (auto simp: update_def setState_def onExitState_def sessionInvariant_def split: if_splits)
  next
    case r
    have cnt: "\<forall>i\<in>listIndex ` set tvs. screenSpacePointCount (m_psmoveTrackerPoseContexts s i) \<le> N"
      using inv by (auto simp: sessionInvariant_def)
    have rec: "\<forall>t\<in>set tvs. screenSpacePointCount
                 (recordScreenSamples N v loc tvs (m_psmoveTrackerPoseContexts s) (listIndex t)) \<le> N" for v loc
      using recordScreenSamples_count_le [OF cnt, of v loc tvs] by auto
    have idx: "m_sampleLocationIndex s = 0" using inv by (simp add: sessionInvariant_def)
    show ?thesis
      using upd r inv P rec idx
        place [of s] place [of "s\<lparr>m_sampleLocationIndex := m_sampleLocationIndex s + 1\<rparr>"]
      by (auto simp: update_def Let_def sessionInvariant_def k_mat_sample_location_count_def
          split: if_splits)
  qed
qed

lemma reachable_invariant:
  assumes N: "0 \<le> N"
  shows "reachable E N tvs s \<Longrightarrow> sessionInvariant N tvs s"
proof (induction rule: reachable.induct)
  case (start s P)
  then show ?case using N by (simp add: enter_invariant)
next
  case (tick s P now s' rs)
  then show ?case using N update_invariant by blast
next
  case (leave s P)
  then show ?case by (simp add: exit_invariant)
next
  case (reenter s P)
  then show ?case using N by (simp add: enter_invariant)
qed

text \<open>
  From \<^verbatim>\<open>enter\<close> a session stays in the initial step and the two controller steps.
\<close>

lemma reachable_steps:
  "0 \<le> N \<Longrightarrow> reachable E N tvs s \<Longrightarrow>
   m_menuState s = initial \<or> m_menuState s = calibrationStepPlacePSMove
     \<or> m_menuState s = calibrationStepRecordPSMove"
  using reachable_invariant [of N E tvs s] by (simp add: sessionInvariant_def)

text \<open>
  C7. With a sample count \<open>N\<close> that is not negative: in every reachable state the sample
  count of each tracker of the tracker map is at most \<open>N\<close> and the mat location index is at
  most the number of mat locations, 5. Recording a controller sample for a tracker whose
  count has reached \<open>N\<close> leaves its context, buffer and count included, as it is, in the
  loop body and in the loop over the trackers; recording a head sample when the head count
  has reached its cap leaves the head context as it is.
\<close>

theorem C7_sample_caps:
  assumes N: "0 \<le> N"
  shows "(reachable E N tvs s \<longrightarrow>
            (\<forall>t\<in>set tvs. screenSpacePointCount (m_psmoveTrackerPoseContexts s (listIndex t)) \<le> N)
            \<and> m_sampleLocationIndex s \<le> k_mat_sample_location_count)
       \<and> (N \<le> screenSpacePointCount c \<longrightarrow> recordScreenSample N PSMoveView loc tv c = c)
       \<and> (N \<le> screenSpacePointCount (ctxs i) \<longrightarrow>
            recordScreenSamples N PSMoveView loc tvs ctxs i = ctxs i)
       \<and> (k_mat_sample_location_count \<le> worldSpaceSampleCount h \<longrightarrow>
            recordHMDSample E HMDView h = (False, h))"
proof -
  have "reachable E N tvs s \<longrightarrow>
            (\<forall>t\<in>set tvs. screenSpacePointCount (m_psmoveTrackerPoseContexts s (listIndex t)) \<le> N)
            \<and> m_sampleLocationIndex s \<le> k_mat_sample_location_count"
    using reachable_invariant [OF N, of E tvs s]
    by (simp add: sessionInvariant_def k_mat_sample_location_count_def)
  then show ?thesis
    by (simp add: recordScreenSample_full recordScreenSamples_full recordHMDSample_full)
qed

theorem C7_sample_caps_witness:
  "(0::int) \<le> 10
   \<and> reachable sampleExternals 10 [sampleTracker]
       (enter (sampleParent True None None) (sampleState initial 3 10 42))
   \<and> screenSpacePointCount
       (m_psmoveTrackerPoseContexts
          (enter (sampleParent True None None) (sampleState initial 3 10 42)) 0) \<le> 10
   \<and> m_sampleLocationIndex (enter (sampleParent True None None) (sampleState initial 3 10 42))
       \<le> k_mat_sample_location_count
   \<and> recordScreenSample 10 (m_controllerView (sampleParent True (Some (1, 1)) None)) 0
        (trackerView sampleTracker) (sampleContext 10 10) = sampleContext 10 10
   \<and> recordScreenSamples 10 (m_controllerView (sampleParent True (Some (1, 1)) None)) 0
        [sampleTracker] (\<lambda>_. sampleContext 10 10) 0 = sampleContext 10 10
   \<and> recordHMDSample sampleExternals (sampleHMDView True samplePose) (sampleHMDContext 5)
       = (False, sampleHMDContext 5)"
proof -
  have n: "(0::int) \<le> 10" by simp
  have r: "reachable sampleExternals 10 [sampleTracker]
             (enter (sampleParent True None None) (sampleState initial 3 10 42))"
    by (rule reachable.start) (simp_all add: sampleState_def sampleParent_def)
  have full: "(10::int) \<le> screenSpacePointCount (sampleContext 10 10)"
    by (simp add: sampleContext_def)
  have hfull: "k_mat_sample_location_count \<le> worldSpaceSampleCount (sampleHMDContext 5)"
    by (simp add: sampleHMDContext_def k_mat_sample_location_count_def)
  show ?thesis
    using n r full hfull
      C7_sample_caps [OF n, of sampleExternals "[sampleTracker]"
          "enter (sampleParent True None None) (sampleState initial 3 10 42)"
          "sampleContext 10 10" "m_controllerView (sampleParent True (Some (1, 1)) None)" 0
          "trackerView sampleTracker" "\<lambda>_. sampleContext 10 10" 0 "sampleHMDContext 5"
          "sampleHMDView True samplePose"]
    by (simp add: sampleTracker_def)
qed

subsection \<open>The pose computation step\<close>

lemma distinct_map_tail_neq:
  "distinct (map f (t # ts)) \<Longrightarrow> u \<in> set ts \<Longrightarrow> f u \<noteq> f t"
  by (metis distinct.simps(2) image_eqI list.simps(9) set_map)

lemma computeAll_False [simp]: "computeAllTrackerPoses E N T tvs False ctxs = (False, ctxs)"
  by (cases tvs) simp_all

lemma solveOk_cong:
  "ctxs' (listIndex t) = ctxs (listIndex t) \<Longrightarrow> solveOk E N T ctxs' t = solveOk E N T ctxs t"
  by (simp add: solveOk_def)

lemma solvedContext_cong:
  "ctxs' (listIndex t) = ctxs (listIndex t) \<Longrightarrow> solvedContext E N T ctxs' t = solvedContext E N T ctxs t"
  by (simp add: solvedContext_def)

lemma computeAll_other:
  "i \<notin> listIndex ` set tvs \<Longrightarrow> snd (computeAllTrackerPoses E N T tvs b ctxs) i = ctxs i"
  by (induction tvs arbitrary: b ctxs) (auto simp: Let_def)

lemma computeAll_Cons_ok:
  "solveOk E N T ctxs t \<Longrightarrow>
   computeAllTrackerPoses E N T (t # ts) True ctxs
     = computeAllTrackerPoses E N T ts True (ctxs(listIndex t := solvedContext E N T ctxs t))"
  by (simp add: solveOk_def solvedContext_def Let_def)

lemma computeAll_Cons_fail:
  "\<not> solveOk E N T ctxs t \<Longrightarrow>
   computeAllTrackerPoses E N T (t # ts) True ctxs
     = (False, ctxs(listIndex t := solvedContext E N T ctxs t))"
  by (simp add: solveOk_def solvedContext_def Let_def)

lemma computeAll_all_ok:
  "distinct (map listIndex tvs) \<Longrightarrow> \<forall>t\<in>set tvs. solveOk E N T ctxs t \<Longrightarrow>
   fst (computeAllTrackerPoses E N T tvs True ctxs)
   \<and> (\<forall>t\<in>set tvs. snd (computeAllTrackerPoses E N T tvs True ctxs) (listIndex t)
                       = solvedContext E N T ctxs t)"
proof (induction tvs arbitrary: ctxs)
  case Nil
  then show ?case by simp
next
  case (Cons t ts)
  let ?c = "ctxs(listIndex t := solvedContext E N T ctxs t)"
  have ok: "solveOk E N T ctxs t" using Cons.prems by simp
  have same: "\<And>u. u \<in> set ts \<Longrightarrow> ?c (listIndex u) = ctxs (listIndex u)"
    using distinct_map_tail_neq [OF Cons.prems(1)] by simp
  have "\<forall>u\<in>set ts. solveOk E N T ?c u"
    using Cons.prems(2) same solveOk_cong [of ?c _ ctxs E N T] by simp
  moreover have "distinct (map listIndex ts)" using Cons.prems(1) by simp
  ultimately have IH:
    "fst (computeAllTrackerPoses E N T ts True ?c)
     \<and> (\<forall>u\<in>set ts. snd (computeAllTrackerPoses E N T ts True ?c) (listIndex u)
                       = solvedContext E N T ?c u)"
    using Cons.IH by blast
  have head: "snd (computeAllTrackerPoses E N T ts True ?c) (listIndex t) = solvedContext E N T ctxs t"
  proof -
    have "listIndex t \<notin> listIndex ` set ts" using Cons.prems(1) by auto
    then show ?thesis by (simp add: computeAll_other)
  qed
  have tail: "\<And>u. u \<in> set ts \<Longrightarrow> solvedContext E N T ?c u = solvedContext E N T ctxs u"
    using same by (rule solvedContext_cong)
  show ?case
    unfolding computeAll_Cons_ok [OF ok] using IH head tail by simp
qed

lemma computeAll_first_failure:
  "distinct (map listIndex (pre @ f # post)) \<Longrightarrow> \<forall>t\<in>set pre. solveOk E N T ctxs t \<Longrightarrow>
   \<not> solveOk E N T ctxs f \<Longrightarrow>
   \<not> fst (computeAllTrackerPoses E N T (pre @ f # post) True ctxs)
   \<and> (\<forall>t\<in>set (pre @ [f]). snd (computeAllTrackerPoses E N T (pre @ f # post) True ctxs) (listIndex t)
                       = solvedContext E N T ctxs t)
   \<and> (\<forall>t\<in>set post. snd (computeAllTrackerPoses E N T (pre @ f # post) True ctxs) (listIndex t)
                       = ctxs (listIndex t))"
proof (induction pre arbitrary: ctxs)
  case Nil
  have "\<And>u. u \<in> set post \<Longrightarrow> listIndex u \<noteq> listIndex f"
    using distinct_map_tail_neq [of listIndex f post] Nil.prems(1) by simp
  then show ?case
    using Nil.prems(3) by (simp add: computeAll_Cons_fail del: computeAllTrackerPoses.simps)
next
  case (Cons t ts)
  let ?c = "ctxs(listIndex t := solvedContext E N T ctxs t)"
  let ?r = "computeAllTrackerPoses E N T (ts @ f # post) True ?c"
  have ok: "solveOk E N T ctxs t" using Cons.prems by simp
  have same: "\<And>u. u \<in> set (ts @ f # post) \<Longrightarrow> ?c (listIndex u) = ctxs (listIndex u)"
    using distinct_map_tail_neq [of listIndex t "ts @ f # post"] Cons.prems(1) by simp
  have d: "distinct (map listIndex (ts @ f # post))" using Cons.prems(1) by simp
  have p: "\<forall>u\<in>set ts. solveOk E N T ?c u"
    using Cons.prems(2) same solveOk_cong [of ?c _ ctxs E N T] by simp
  have nf: "\<not> solveOk E N T ?c f"
    using Cons.prems(3) same [of f] solveOk_cong [of ?c f ctxs E N T] by simp
  note IH = Cons.IH [OF d p nf]
  have head: "snd ?r (listIndex t) = solvedContext E N T ctxs t"
  proof -
    have "listIndex t \<notin> listIndex ` set (ts @ f # post)" using Cons.prems(1) by auto
    then show ?thesis by (simp add: computeAll_other)
  qed
  have eq: "computeAllTrackerPoses E N T ((t # ts) @ f # post) True ctxs = ?r"
    using computeAll_Cons_ok [OF ok] by simp
  have tail: "\<And>u. u \<in> set (ts @ f # post) \<Longrightarrow> solvedContext E N T ?c u = solvedContext E N T ctxs u"
    using same by (rule solvedContext_cong)
  have c1: "\<not> fst ?r" using IH by blast
  have c2: "snd ?r (listIndex u) = solvedContext E N T ctxs u" if "u \<in> set ((t # ts) @ [f])" for u
  proof (cases "u = t")
    case True
    then show ?thesis using head by simp
  next
    case False
    then have m: "u \<in> set (ts @ [f])" using that by simp
    then have "snd ?r (listIndex u) = solvedContext E N T ?c u" using IH by blast
    moreover have "u \<in> set (ts @ f # post)" using m by auto
    ultimately show ?thesis using tail by simp
  qed
  have c3: "snd ?r (listIndex u) = ctxs (listIndex u)" if "u \<in> set post" for u
  proof -
    have "snd ?r (listIndex u) = ?c (listIndex u)" using IH that by blast
    moreover have "u \<in> set (ts @ f # post)" using that by simp
    ultimately show ?thesis using same by simp
  qed
  show ?case
    unfolding eq using c1 c2 c3 by blast
qed

text \<open>
  C8, as stated, asks that the solver be run for every tracker. The solve loop stops at the
  first failure: with a first tracker whose solve fails and a second whose solve would
  succeed, the tick ends in the failed step and the second tracker's context is the one it
  had before the tick, not the solved one, so the contexts after the tick are not all the
  solved ones.
\<close>

theorem C8_solver_not_run_after_failure:
  "\<not> (\<forall>t\<in>set (m_trackerViews twoTrackerParent).
         m_psmoveTrackerPoseContexts
           (fst (projr (update sampleExternals 5 0 twoTrackerParent
                          (sampleState calibrationStepComputeTrackerPoses 5 5 5))))
           (listIndex t)
         = snd (computeTrackerCameraPose sampleExternals 5 (trackerView t) mat4_identity
                  (sampleContext 5 5)))
   \<and> m_trackerViews twoTrackerParent = [blindTracker, sampleTracker]
   \<and> fst (computeTrackerCameraPose sampleExternals 5 (trackerView blindTracker) mat4_identity
             (sampleContext 5 5)) = False
   \<and> fst (computeTrackerCameraPose sampleExternals 5 (trackerView sampleTracker) mat4_identity
             (sampleContext 5 5)) = True
   \<and> m_menuState
         (fst (projr (update sampleExternals 5 0 twoTrackerParent
                        (sampleState calibrationStepComputeTrackerPoses 5 5 5))))
       = calibrateStepFailed
   \<and> m_psmoveTrackerPoseContexts
         (fst (projr (update sampleExternals 5 0 twoTrackerParent
                        (sampleState calibrationStepComputeTrackerPoses 5 5 5))))
         (listIndex sampleTracker)
       = sampleContext 5 5"
  by (simp add: update_def Let_def twoTrackerParent_def sampleParent_def sampleState_def
      blindTracker_def sampleTracker_def sampleExternals_def computeTrackerCameraPose_def
      psmoveTrackerToHmdTrackerSpaceOf_def setState_def onExitState_def sampleContext_def)

text \<open>
  C8, amended. In the pose computation step, with trackers of distinct list indices, the
  solver is run for the trackers in map order up to and including the first whose solve
  fails. If every solve succeeds, each tracker's context is the solved one, both poses of
  each tracker are sent to the parent stage, in map order, and the session moves to the
  success step. If the solve of some tracker fails, those after it are left unsolved, their
  contexts untouched, no pose is sent for any tracker, and the session moves to the failed
  step.
\<close>

theorem C8_compute_poses:
  fixes E N now P s pre f post
  defines "tvs \<equiv> m_trackerViews P"
    and "ctxs \<equiv> m_psmoveTrackerPoseContexts s"
    and "T \<equiv> psmoveTrackerToHmdTrackerSpaceOf E (m_hmdView P) (m_hmdTrackerPoseContext s)"
  assumes step: "m_menuState s = calibrationStepComputeTrackerPoses"
    and dist: "distinct (map listIndex tvs)"
  shows "((\<forall>t\<in>set tvs. solveOk E N T ctxs t) \<longrightarrow>
            (\<exists>s'. update E N now P s
                     = Inr (s', map (\<lambda>t. (trackerPose (m_psmoveTrackerPoseContexts s' (listIndex t)),
                                         hmdCameraRelativeTrackerPose (m_psmoveTrackerPoseContexts s' (listIndex t)),
                                         trackerView t)) tvs)
               \<and> m_menuState s' = calibrateStepSuccess
               \<and> (\<forall>t\<in>set tvs. m_psmoveTrackerPoseContexts s' (listIndex t) = solvedContext E N T ctxs t)))
       \<and> (tvs = pre @ f # post \<and> (\<forall>t\<in>set pre. solveOk E N T ctxs t) \<and> \<not> solveOk E N T ctxs f \<longrightarrow>
            (\<exists>s'. update E N now P s = Inr (s', [])
               \<and> m_menuState s' = calibrateStepFailed
               \<and> (\<forall>t\<in>set (pre @ [f]).
                     m_psmoveTrackerPoseContexts s' (listIndex t) = solvedContext E N T ctxs t)
               \<and> (\<forall>t\<in>set post.
                     m_psmoveTrackerPoseContexts s' (listIndex t) = ctxs (listIndex t))))"
proof (intro conjI impI)
  assume ok: "\<forall>t\<in>set tvs. solveOk E N T ctxs t"
  from computeAll_all_ok [OF dist ok]
  show "\<exists>s'. update E N now P s
                     = Inr (s', map (\<lambda>t. (trackerPose (m_psmoveTrackerPoseContexts s' (listIndex t)),
                                         hmdCameraRelativeTrackerPose (m_psmoveTrackerPoseContexts s' (listIndex t)),
                                         trackerView t)) tvs)
               \<and> m_menuState s' = calibrateStepSuccess
               \<and> (\<forall>t\<in>set tvs. m_psmoveTrackerPoseContexts s' (listIndex t) = solvedContext E N T ctxs t)"
    using step
    by (simp add: update_def Let_def tvs_def ctxs_def T_def setState_def onExitState_def
        requestTrackerPoses_def)
next
  assume a: "tvs = pre @ f # post \<and> (\<forall>t\<in>set pre. solveOk E N T ctxs t) \<and> \<not> solveOk E N T ctxs f"
  then have d: "distinct (map listIndex (pre @ f # post))" using dist by simp
  from computeAll_first_failure [OF d, of E N T ctxs] a
  have r: "\<not> fst (computeAllTrackerPoses E N T tvs True ctxs)"
    "\<forall>t\<in>set (pre @ [f]). snd (computeAllTrackerPoses E N T tvs True ctxs) (listIndex t)
                       = solvedContext E N T ctxs t"
    "\<forall>t\<in>set post. snd (computeAllTrackerPoses E N T tvs True ctxs) (listIndex t)
                       = ctxs (listIndex t)"
    by simp_all
  show "\<exists>s'. update E N now P s = Inr (s', [])
               \<and> m_menuState s' = calibrateStepFailed
               \<and> (\<forall>t\<in>set (pre @ [f]).
                     m_psmoveTrackerPoseContexts s' (listIndex t) = solvedContext E N T ctxs t)
               \<and> (\<forall>t\<in>set post.
                     m_psmoveTrackerPoseContexts s' (listIndex t) = ctxs (listIndex t))"
    using step r
    by (simp add: update_def Let_def tvs_def ctxs_def T_def setState_def onExitState_def)
qed

theorem C8_compute_poses_witness:
  "m_menuState (sampleState calibrationStepComputeTrackerPoses 5 5 5)
     = calibrationStepComputeTrackerPoses
   \<and> distinct (map listIndex (m_trackerViews twoTrackerParent))
   \<and> \<not> solveOk sampleExternals 5 mat4_identity (\<lambda>_. sampleContext 5 5) blindTracker
   \<and> (\<exists>s'. update sampleExternals 5 0 twoTrackerParent
               (sampleState calibrationStepComputeTrackerPoses 5 5 5) = Inr (s', [])
          \<and> m_menuState s' = calibrateStepFailed
          \<and> m_psmoveTrackerPoseContexts s' 0 = sampleContext 5 5)
   \<and> solveOk sampleExternals 5 mat4_identity (\<lambda>_. sampleContext 5 5) sampleTracker
   \<and> (\<exists>s'. update sampleExternals 5 0 (sampleParent True None None)
               (sampleState calibrationStepComputeTrackerPoses 5 5 5)
             = Inr (s', [(\<lparr>Position = (- 1, - 2, - 3), Orientation = (1, 0, 0, 0)\<rparr>,
                          \<lparr>Position = (- 1, - 2, - 3), Orientation = (1, 0, 0, 0)\<rparr>,
                          trackerView sampleTracker)])
          \<and> m_menuState s' = calibrateStepSuccess)"
proof -
  let ?s = "sampleState calibrationStepComputeTrackerPoses 5 5 5"
  let ?P1 = "sampleParent True None None"
  have step: "m_menuState ?s = calibrationStepComputeTrackerPoses"
    by (simp add: sampleState_def)
  have ctxs: "m_psmoveTrackerPoseContexts ?s = (\<lambda>_. sampleContext 5 5)"
    by (simp add: sampleState_def)
  have T2: "psmoveTrackerToHmdTrackerSpaceOf sampleExternals (m_hmdView twoTrackerParent)
              (m_hmdTrackerPoseContext ?s) = mat4_identity"
    by (simp add: psmoveTrackerToHmdTrackerSpaceOf_def twoTrackerParent_def sampleParent_def)
  have T1: "psmoveTrackerToHmdTrackerSpaceOf sampleExternals (m_hmdView ?P1)
              (m_hmdTrackerPoseContext ?s) = mat4_identity"
    by (simp add: psmoveTrackerToHmdTrackerSpaceOf_def sampleParent_def)
  have d2: "distinct (map listIndex (m_trackerViews twoTrackerParent))"
    by (simp add: twoTrackerParent_def sampleParent_def blindTracker_def sampleTracker_def)
  have d1: "distinct (map listIndex (m_trackerViews ?P1))"
    by (simp add: sampleParent_def)
  have bad: "\<not> solveOk sampleExternals 5 mat4_identity (\<lambda>_. sampleContext 5 5) blindTracker"
    by (simp add: solveOk_def computeTrackerCameraPose_def sampleExternals_def blindTracker_def)
  have good: "solveOk sampleExternals 5 mat4_identity (\<lambda>_. sampleContext 5 5) sampleTracker"
    by (simp add: solveOk_def computeTrackerCameraPose_def sampleExternals_def sampleTracker_def)
  have split: "m_trackerViews twoTrackerParent = [] @ blindTracker # [sampleTracker]"
    by (simp add: twoTrackerParent_def sampleParent_def)
  have one: "m_trackerViews ?P1 = [sampleTracker]"
    by (simp add: sampleParent_def)
  have fail: "\<exists>s'. update sampleExternals 5 0 twoTrackerParent ?s = Inr (s', [])
          \<and> m_menuState s' = calibrateStepFailed
          \<and> m_psmoveTrackerPoseContexts s' 0 = sampleContext 5 5"
  proof -
    note th = C8_compute_poses [where E = sampleExternals and N = 5 and now = 0 and pre = "[]"
        and f = blindTracker and post = "[sampleTracker]", OF step d2, unfolded T2 ctxs,
        THEN conjunct2, THEN mp]
    have "m_trackerViews twoTrackerParent = [] @ blindTracker # [sampleTracker]
          \<and> (\<forall>t\<in>set []. solveOk sampleExternals 5 mat4_identity (\<lambda>_. sampleContext 5 5) t)
          \<and> \<not> solveOk sampleExternals 5 mat4_identity (\<lambda>_. sampleContext 5 5) blindTracker"
      using split bad by simp
    from th [OF this] obtain s' where
      "update sampleExternals 5 0 twoTrackerParent ?s = Inr (s', [])"
      "m_menuState s' = calibrateStepFailed"
      "\<forall>t\<in>set [sampleTracker]. m_psmoveTrackerPoseContexts s' (listIndex t) = sampleContext 5 5"
      by blast
    then show ?thesis by (simp add: sampleTracker_def)
  qed
  have solved: "solvedContext sampleExternals 5 mat4_identity (\<lambda>_. sampleContext 5 5) sampleTracker
     = (sampleContext 5 5)
         \<lparr>bValidTrackerPose := True,
          reprojectionError := 230400,
          trackerPose := \<lparr>Position = (- 1, - 2, - 3), Orientation = (1, 0, 0, 0)\<rparr>,
          hmdCameraRelativeTrackerPose := \<lparr>Position = (- 1, - 2, - 3), Orientation = (1, 0, 0, 0)\<rparr>\<rparr>"
    by (simp add: solvedContext_def computeTrackerCameraPose_def sampleExternals_def
        sampleTracker_def mat4_identity_def k_psmove_quaternion_identity_def Let_def
        reprojectionErrorLoop_def cvObjectPoints_def cvImagePoints_def sampleContext_def
        eval_nat_numeral upt_rec)
  have succ: "\<exists>s'. update sampleExternals 5 0 ?P1 ?s
             = Inr (s', [(\<lparr>Position = (- 1, - 2, - 3), Orientation = (1, 0, 0, 0)\<rparr>,
                          \<lparr>Position = (- 1, - 2, - 3), Orientation = (1, 0, 0, 0)\<rparr>,
                          trackerView sampleTracker)])
          \<and> m_menuState s' = calibrateStepSuccess"
  proof -
    note th = C8_compute_poses [where E = sampleExternals and N = 5 and now = 0, OF step d1,
        unfolded T1 ctxs one, THEN conjunct1, THEN mp]
    have "\<forall>t\<in>set [sampleTracker].
            solveOk sampleExternals 5 mat4_identity (\<lambda>_. sampleContext 5 5) t"
      using good by simp
    from th [OF this] obtain s' where s':
      "update sampleExternals 5 0 ?P1 ?s
         = Inr (s', map (\<lambda>t. (trackerPose (m_psmoveTrackerPoseContexts s' (listIndex t)),
                              hmdCameraRelativeTrackerPose (m_psmoveTrackerPoseContexts s' (listIndex t)),
                              trackerView t)) [sampleTracker])"
      "m_menuState s' = calibrateStepSuccess"
      "\<forall>t\<in>set [sampleTracker].
         m_psmoveTrackerPoseContexts s' (listIndex t)
           = solvedContext sampleExternals 5 mat4_identity (\<lambda>_. sampleContext 5 5) t"
      by blast
    from s'(3) have "m_psmoveTrackerPoseContexts s' (listIndex sampleTracker)
           = solvedContext sampleExternals 5 mat4_identity (\<lambda>_. sampleContext 5 5) sampleTracker"
      by simp
    then show ?thesis using s'(1,2) by (simp add: solved)
  qed
  show ?thesis using step d2 bad fail good succ by blast
qed

subsection \<open>The composed transform\<close>

lemma mat4_mul_apply:
  "mat4_mul_vec4 (mat4_mul A B) v = mat4_mul_vec4 A (mat4_mul_vec4 B v)"
proof -
  obtain a0 a1 a2 a3 where A: "A = (a0, a1, a2, a3)" by (cases A)
  obtain b0 b1 b2 b3 where B: "B = (b0, b1, b2, b3)" by (cases B)
  obtain x y z w where v: "v = (x, y, z, w)" by (cases v)
  obtain a00 a01 a02 a03 where a0: "a0 = (a00, a01, a02, a03)" by (cases a0)
  obtain a10 a11 a12 a13 where a1: "a1 = (a10, a11, a12, a13)" by (cases a1)
  obtain a20 a21 a22 a23 where a2: "a2 = (a20, a21, a22, a23)" by (cases a2)
  obtain a30 a31 a32 a33 where a3: "a3 = (a30, a31, a32, a33)" by (cases a3)
  obtain b00 b01 b02 b03 where b0: "b0 = (b00, b01, b02, b03)" by (cases b0)
  obtain b10 b11 b12 b13 where b1: "b1 = (b10, b11, b12, b13)" by (cases b1)
  obtain b20 b21 b22 b23 where b2: "b2 = (b20, b21, b22, b23)" by (cases b2)
  obtain b30 b31 b32 b33 where b3: "b3 = (b30, b31, b32, b33)" by (cases b3)
  show ?thesis
    unfolding A B v a0 a1 a2 a3 b0 b1 b2 b3
    by (simp add: algebra_simps)
qed

text \<open>
  C9. The transform from controller tracking space to head camera space is the product of
  the inverse of the head device's camera-to-tracking transform, the transform built from
  the averaged head orientation and position, and the inverse of the transform of the
  calibration offset, in this order. Applied to a vector, the rightmost factor acts first.
  The pose computation step passes the identity pose as calibration offset.
\<close>

theorem C9_composed_transform:
  "computePSMoveTrackerToHMDTrackerSpaceTransform E hmdView psmoveCalibrationOffset h
     = mat4_mul
         (mat4_mul (glm_inverse E (psmove_pose_to_glm_mat4 E (getTrackerPose hmdView)))
            (psmove_quat_pos_to_glm_mat4 E (avgHMDWorldSpaceOrientation h) (avgHMDWorldSpacePoint h)))
         (glm_inverse E (psmove_pose_to_glm_mat4 E psmoveCalibrationOffset))
   \<and> mat4_mul_vec4 (computePSMoveTrackerToHMDTrackerSpaceTransform E hmdView psmoveCalibrationOffset h) v
     = mat4_mul_vec4 (glm_inverse E (psmove_pose_to_glm_mat4 E (getTrackerPose hmdView)))
         (mat4_mul_vec4
            (psmove_quat_pos_to_glm_mat4 E (avgHMDWorldSpaceOrientation h) (avgHMDWorldSpacePoint h))
            (mat4_mul_vec4 (glm_inverse E (psmove_pose_to_glm_mat4 E psmoveCalibrationOffset)) v))
   \<and> psmoveTrackerToHmdTrackerSpaceOf E (Some hmdView) h
     = computePSMoveTrackerToHMDTrackerSpaceTransform E hmdView k_psmove_pose_identity h"
  by (simp add: computePSMoveTrackerToHMDTrackerSpaceTransform_def Let_def mat4_mul_apply
      psmoveTrackerToHmdTrackerSpaceOf_def)

subsection \<open>A failed solve\<close>

text \<open>
  C10. When the external solve fails for a tracker, \<^verbatim>\<open>computeTrackerCameraPose\<close> returns
  false and clears the validity flag of the tracker's context; the re-projection error, the
  tracking-space pose, the pose relative to the head camera and every other field are what
  they were before the call.
\<close>

theorem C10_failed_solve_keeps_fields:
  assumes "cv_solvePnP E (cvObjectPoints N)
             (cvImagePoints N (getTrackerPixelExtents tv) c)
             (getTrackerIntrinsicMatrix tv) cvDistCoeffs = None"
  shows "fst (computeTrackerCameraPose E N tv T c) = False
       \<and> bValidTrackerPose (snd (computeTrackerCameraPose E N tv T c)) = False
       \<and> reprojectionError (snd (computeTrackerCameraPose E N tv T c)) = reprojectionError c
       \<and> trackerPose (snd (computeTrackerCameraPose E N tv T c)) = trackerPose c
       \<and> hmdCameraRelativeTrackerPose (snd (computeTrackerCameraPose E N tv T c))
           = hmdCameraRelativeTrackerPose c
       \<and> snd (computeTrackerCameraPose E N tv T c) = c\<lparr>bValidTrackerPose := False\<rparr>"
  using assms by (simp add: computeTrackerCameraPose_def Let_def)

theorem C10_failed_solve_keeps_fields_witness:
  "cv_solvePnP sampleExternals (cvObjectPoints 10)
     (cvImagePoints 10 (getTrackerPixelExtents (trackerView blindTracker))
        ((sampleContext 10 10)\<lparr>bValidTrackerPose := True, reprojectionError := 4\<rparr>))
     (getTrackerIntrinsicMatrix (trackerView blindTracker)) cvDistCoeffs = None
   \<and> computeTrackerCameraPose sampleExternals 10 (trackerView blindTracker) mat4_identity
       ((sampleContext 10 10)\<lparr>bValidTrackerPose := True, reprojectionError := 4\<rparr>)
     = (False, (sampleContext 10 10)\<lparr>bValidTrackerPose := False, reprojectionError := 4\<rparr>)"
proof -
  have h: "cv_solvePnP sampleExternals (cvObjectPoints 10)
     (cvImagePoints 10 (getTrackerPixelExtents (trackerView blindTracker))
        ((sampleContext 10 10)\<lparr>bValidTrackerPose := True, reprojectionError := 4\<rparr>))
     (getTrackerIntrinsicMatrix (trackerView blindTracker)) cvDistCoeffs = None"
    by (simp add: sampleExternals_def blindTracker_def)
  show ?thesis
    using h C10_failed_solve_keeps_fields [OF h, of mat4_identity]
    by (simp add: prod_eq_iff)
qed

end
